theory Spec2Isabelle
  imports Main "HOL-Library.Word"
begin

unbundle bit_operations_syntax

section \<open>Python values\<close>

text \<open>
  The model follows \<^verbatim>\<open>src/protocol/protobuf_client.py\<close>, class \<^verbatim>\<open>ProtobufClient\<close>.
  Python integers are unbounded, so every integer of the source is an \<open>int\<close>; \<open>AND\<close>,
  \<open>OR\<close> and \<open>NOT\<close> on \<open>int\<close> are Python's \<^verbatim>\<open>&\<close>, \<^verbatim>\<open>|\<close> and \<^verbatim>\<open>~\<close>.
\<close>

type_synonym byte = "8 word"
type_synonym bytes = "byte list"

text \<open>The exceptions the code raises or lets through. All of them are subclasses of
  Python's \<^verbatim>\<open>Exception\<close>. \<open>StructError\<close> is \<^verbatim>\<open>struct.error\<close>, \<open>DecodeError\<close> is what
  \<^verbatim>\<open>ParseFromString\<close> raises, \<open>GzipError\<close> what \<^verbatim>\<open>gzip.decompress\<close> raises, \<open>SyntaxError\<close>
  what the vdf parsers raise, \<open>ConnectionError\<close> and \<open>TimeoutError\<close> what the socket may
  raise.\<close>

datatype exn =
    StructError | DecodeError | GzipError | SyntaxError | TypeError | KeyError | ValueError
  | AttributeError | AssertionError | UnknownBackendResponse | RecursionError
  | TimeoutError | ConnectionError

text \<open>What the vdf and json parsers return: nested dictionaries with string keys (in
  insertion order; a well-formed dictionary has distinct keys), strings and integers.\<close>

datatype pyobj = PyDict "(string \<times> pyobj) list" | PyStr string | PyInt int

text \<open>\<^verbatim>\<open>obj[key]\<close> for a string key.\<close>

fun getitem :: "pyobj \<Rightarrow> string \<Rightarrow> exn + pyobj" where
  "getitem (PyDict kvs) k = (case map_of kvs k of None \<Rightarrow> Inl KeyError | Some v \<Rightarrow> Inr v)"
| "getitem (PyStr s) k = Inl TypeError"
| "getitem (PyInt i) k = Inl TypeError"

fun is_substring :: "string \<Rightarrow> string \<Rightarrow> bool" where
  "is_substring k [] = (k = [])"
| "is_substring k (c # s) = (take (length k) (c # s) = k \<or> is_substring k s)"

text \<open>\<^verbatim>\<open>key in obj\<close>: key membership in a dictionary, substring test in a string, a
  \<^verbatim>\<open>TypeError\<close> on an integer.\<close>

fun contains :: "string \<Rightarrow> pyobj \<Rightarrow> exn + bool" where
  "contains k (PyDict kvs) = Inr (map_of kvs k \<noteq> None)"
| "contains k (PyStr s) = Inr (is_substring k s)"
| "contains k (PyInt i) = Inl TypeError"

text \<open>\<^verbatim>\<open>for x in obj\<close>: the keys of a dictionary, the characters of a string.\<close>

fun py_iter :: "pyobj \<Rightarrow> exn + string list" where
  "py_iter (PyDict kvs) = Inr (map fst kvs)"
| "py_iter (PyStr s) = Inr (map (\<lambda>c. [c]) s)"
| "py_iter (PyInt i) = Inl TypeError"

text \<open>\<^verbatim>\<open>int(obj)\<close>; Python's parser of integer literals is the parameter \<open>int_of_str\<close>.\<close>

fun py_int :: "(string \<Rightarrow> int option) \<Rightarrow> pyobj \<Rightarrow> exn + int" where
  "py_int int_of_str (PyInt i) = Inr i"
| "py_int int_of_str (PyStr s) = (case int_of_str s of None \<Rightarrow> Inl ValueError | Some i \<Rightarrow> Inr i)"
| "py_int int_of_str (PyDict kvs) = Inl TypeError"

definition lower_char :: "char \<Rightarrow> char" where
  "lower_char c =
     (if 65 \<le> (of_char c :: nat) \<and> (of_char c :: nat) \<le> 90 then char_of (of_char c + 32 :: nat) else c)"

text \<open>\<^verbatim>\<open>obj.lower()\<close>: only strings have the method.\<close>

fun py_lower :: "pyobj \<Rightarrow> exn + string" where
  "py_lower (PyStr s) = Inr (map lower_char s)"
| "py_lower (PyDict kvs) = Inl AttributeError"
| "py_lower (PyInt i) = Inl AttributeError"

text \<open>\<^verbatim>\<open>str(n)\<close> for an integer: its decimal digits, with a minus sign when negative.\<close>

fun str_nat :: "nat \<Rightarrow> string" where
  "str_nat n =
     (if n < 10 then [''0123456789'' ! n]
      else str_nat (n div 10) @ [''0123456789'' ! (n mod 10)])"

declare str_nat.simps [simp del]

definition str :: "int \<Rightarrow> string" where
  "str i = (if i < 0 then CHR ''-'' # str_nat (nat (- i)) else str_nat (nat i))"

text \<open>\<^verbatim>\<open>d[k] = v\<close> on a dictionary kept as an association list in insertion order: an
  existing key keeps its place.\<close>

fun dict_set :: "'k \<Rightarrow> 'v \<Rightarrow> ('k \<times> 'v) list \<Rightarrow> ('k \<times> 'v) list" where
  "dict_set k v [] = [(k, v)]"
| "dict_set k v (p # ps) = (if fst p = k then (k, v) # ps else p # dict_set k v ps)"

subsection \<open>Sequencing computations that may raise\<close>

definition rbind :: "exn + 'a \<Rightarrow> ('a \<Rightarrow> exn + 'b) \<Rightarrow> exn + 'b" where
  "rbind r f = (case r of Inl e \<Rightarrow> Inl e | Inr x \<Rightarrow> f x)"

definition or_raise :: "exn \<Rightarrow> 'a option \<Rightarrow> exn + 'a" where
  "or_raise e r = (case r of None \<Rightarrow> Inl e | Some x \<Rightarrow> Inr x)"

fun map_raise :: "('a \<Rightarrow> exn + 'b) \<Rightarrow> 'a list \<Rightarrow> exn + 'b list" where
  "map_raise f [] = Inr []"
| "map_raise f (x # xs) = rbind (f x) (\<lambda>y. rbind (map_raise f xs) (\<lambda>ys. Inr (y # ys)))"

subsection \<open>\<^verbatim>\<open>struct.pack\<close> and \<^verbatim>\<open>struct.unpack\<close> with format \<^verbatim>\<open><I\<close>\<close>

text \<open>Four bytes, little-endian, unsigned. \<^verbatim>\<open>unpack\<close> raises on a buffer that is not
  exactly four bytes long, \<^verbatim>\<open>pack\<close> on a number outside \<open>0 .. 2^32 - 1\<close>.\<close>

definition unpack_I :: "bytes \<Rightarrow> exn + int" where
  "unpack_I b =
     (case b of
        [b0, b1, b2, b3] \<Rightarrow> Inr (uint b0 + 256 * uint b1 + 65536 * uint b2 + 16777216 * uint b3)
      | _ \<Rightarrow> Inl StructError)"

definition le32 :: "int \<Rightarrow> bytes" where
  "le32 n =
     [word_of_int n, word_of_int (n div 256), word_of_int (n div 65536),
      word_of_int (n div 16777216)]"

definition pack_I :: "int \<Rightarrow> exn + bytes" where
  "pack_I n = (if 0 \<le> n \<and> n < 4294967296 then Inr (le32 n) else Inl StructError)"

text \<open>Assigning to a protobuf integer field checks the range of the field's type.\<close>

definition proto_uint :: "nat \<Rightarrow> int \<Rightarrow> exn + int" where
  "proto_uint bits v = (if 0 \<le> v \<and> v < 2 ^ bits then Inr v else Inl ValueError)"

definition proto_int32 :: "int \<Rightarrow> exn + int" where
  "proto_int32 v = (if - 2147483648 \<le> v \<and> v < 2147483648 then Inr v else Inl ValueError)"

fun proto_uint_obj :: "nat \<Rightarrow> pyobj \<Rightarrow> exn + int" where
  "proto_uint_obj bits (PyInt i) = proto_uint bits i"
| "proto_uint_obj bits (PyStr s) = Inl TypeError"
| "proto_uint_obj bits (PyDict kvs) = Inl TypeError"

section \<open>Protocol data\<close>

text \<open>The names of \<^verbatim>\<open>protocol.consts.EMsg\<close> the client uses. Their numbers are a parameter
  (\<open>emsg_value\<close> below).\<close>

datatype EMsg =
    Multi | ClientLogOnResponse | ClientLogOff | ClientFriendsList | ClientPersonaState
  | ClientLicenseList | PICSProductInfoResponse | ClientGetUserStatsResponse
  | ServiceMethod | ServiceMethodResponse
  | ClientLogon | ClientGetUserStats | ServiceMethodCallFromClient | PICSProductInfoRequest

text \<open>\<^verbatim>\<open>CMsgProtoBufHeader\<close>: every field is optional; \<open>None\<close> is a field that was not set.\<close>

record CMsgProtoBufHeader =
  steamid :: "int option"
  client_sessionid :: "int option"
  jobid_source :: "int option"
  jobid_target :: "int option"
  target_job_name :: "string option"

text \<open>The inbound messages, with the fields the client reads. A field read with
  \<^verbatim>\<open>HasField\<close> is an option.\<close>

record CMsgMulti =
  size_unzipped :: int
  message_body :: bytes

record CMsgClientLogonResponse =
  eresult :: int
  out_of_game_heartbeat_seconds :: int

record CMsgClientLoggedOff =
  loggedoff_eresult :: int

record Friend =
  ulfriendid :: int
  efriendrelationship :: int

record CMsgClientFriendsList =
  bincremental :: bool
  friends :: "Friend list"

record PersonaFriend =
  friendid :: int
  game_played_app_id :: int
  player_name :: "string option"
  avatar_hash :: "bytes option"
  persona_state :: "int option"
  gameid :: "int option"
  rich_presence :: "(string \<times> string) list"
  game_name :: "string option"

record CMsgClientPersonaState =
  persona_friends :: "PersonaFriend list"

record License =
  package_id :: int
  owner_id :: int
  flags :: int

record CMsgClientLicenseList =
  licenses :: "License list"

record PackageInfo =
  packageid :: int
  buffer :: bytes

record AppInfo =
  appid :: int
  app_buffer :: bytes

record CMsgClientPICSProductInfoResponse =
  packages :: "PackageInfo list"
  apps :: "AppInfo list"

record AchievementBlock =
  achievement_id :: int
  unlock_time :: "int list"

record CMsgClientGetUserStatsResponse =
  game_id :: int
  stats :: "(int \<times> int) list"
  achievement_blocks :: "AchievementBlock list"
  schema :: bytes

type_synonym token_lists = "(string \<times> (string \<times> string) list) list"

record CCommunity_GetAppRichPresenceLocalization_Response =
  localization_appid :: int
  token_lists :: token_lists

record CPlayer_GetFriendsGameplayInfo_Response =
  your_info_minutes_played_forever :: int

record CCloudConfigStore_Download_Response =
  data_entries :: "string list list"

text \<open>The outbound messages, with the fields the client sets.\<close>

record CMsgClientLogon =
  account_name :: string
  protocol_version :: int
  qos_level :: int
  client_os_type :: int
  ui_mode :: int
  chat_mode :: int
  web_logon_nonce :: string
  client_instance_id :: int

datatype message =
    MsgClientLogon CMsgClientLogon
  | MsgClientGetUserStats int
  | MsgPlayer_GetFriendsGameplayInfo_Request int
  | MsgCloudConfigStore_Download_Request "int list"
  | MsgClientPICSProductInfoRequest "int list" "int list"

text \<open>
  Modelled from the spec: \<^verbatim>\<open>protocol.types.UserInfo\<close> is not among the sources; the spec
  describes it as a per-user presence record with optional fields (name, avatar hash,
  status enum, currently-played game id, free-form key/value presence attributes)
  populated only when the corresponding field was present in the wire message.
\<close>

record UserInfo =
  info_name :: "string option"
  info_avatar_hash :: "bytes option"
  info_state :: "int option"
  info_game_id :: "int option"
  info_game_name :: "string option"
  info_rich_presence :: "(string \<times> string) list option"

definition UserInfo_new :: UserInfo where
  "UserInfo_new =
     \<lparr>info_name = None, info_avatar_hash = None, info_state = None, info_game_id = None,
      info_game_name = None, info_rich_presence = None\<rparr>"

text \<open>An entry of \<^verbatim>\<open>achievements_unlocked\<close>: the dictionary with keys \<^verbatim>\<open>id\<close>,
  \<^verbatim>\<open>unlock_time\<close> and \<^verbatim>\<open>name\<close>.\<close>

record achievement =
  ach_id :: int
  ach_unlock_time :: int
  ach_name :: pyobj

subsection \<open>What the client takes from its libraries\<close>

text \<open>
  The protobuf classes, \<^verbatim>\<open>gzip\<close>, \<^verbatim>\<open>vdf\<close>, \<^verbatim>\<open>json\<close> and the constants and types of
  \<^verbatim>\<open>protocol.consts\<close> and \<^verbatim>\<open>protocol.types\<close> are not among the sources: they are
  parameters of the model. A parser returns \<open>None\<close> where the library raises.
  \<open>steamid_type x\<close> is \<^verbatim>\<open>SteamId.parse(x).type_\<close>; \<open>valid_EFriendRelationship\<close> and
  \<open>valid_EPersonaState\<close> say which numbers the enum constructors accept (they raise
  \<^verbatim>\<open>ValueError\<close> on the others); \<open>default_jobid_target\<close> is what reading an unset
  \<^verbatim>\<open>jobid_target\<close> gives.
\<close>

record env =
  emsg_value :: "EMsg \<Rightarrow> int"
  EResult_OK :: int
  EAccountType_Individual :: int
  steamid_type :: "int \<Rightarrow> int"
  valid_EFriendRelationship :: "int \<Rightarrow> bool"
  valid_EPersonaState :: "int \<Rightarrow> bool"
  default_jobid_target :: int
  int_of_str :: "string \<Rightarrow> int option"
  parse_header :: "bytes \<Rightarrow> CMsgProtoBufHeader option"
  parse_multi :: "bytes \<Rightarrow> CMsgMulti option"
  parse_logon_response :: "bytes \<Rightarrow> CMsgClientLogonResponse option"
  parse_logged_off :: "bytes \<Rightarrow> CMsgClientLoggedOff option"
  parse_friends_list :: "bytes \<Rightarrow> CMsgClientFriendsList option"
  parse_persona_state :: "bytes \<Rightarrow> CMsgClientPersonaState option"
  parse_license_list :: "bytes \<Rightarrow> CMsgClientLicenseList option"
  parse_product_info_response :: "bytes \<Rightarrow> CMsgClientPICSProductInfoResponse option"
  parse_user_stats_response :: "bytes \<Rightarrow> CMsgClientGetUserStatsResponse option"
  parse_localization_response ::
    "bytes \<Rightarrow> CCommunity_GetAppRichPresenceLocalization_Response option"
  parse_gameplay_info_response :: "bytes \<Rightarrow> CPlayer_GetFriendsGameplayInfo_Response option"
  parse_download_response :: "bytes \<Rightarrow> CCloudConfigStore_Download_Response option"
  serialize_header :: "CMsgProtoBufHeader \<Rightarrow> bytes"
  serialize_message :: "message \<Rightarrow> bytes"
  gzip_decompress :: "bytes \<Rightarrow> bytes option"
  vdf_binary_loads :: "bool \<Rightarrow> bytes \<Rightarrow> pyobj option"
  decode_utf8_replace :: "bytes \<Rightarrow> string"
  vdf_loads :: "string \<Rightarrow> pyobj option"
  json_loads :: "string \<Rightarrow> pyobj option"

section \<open>The client\<close>

text \<open>What the client does to the outside, in order: the byte strings it hands to the
  socket and the handler callbacks it awaits, each with its arguments.\<close>

datatype event =
    Socket_send bytes
  | Log_on_handler int
  | Log_off_handler int
  | Relationship_handler bool "(int \<times> int) list"
  | User_info_handler int UserInfo
  | License_import_handler "License list"
  | App_info_handler int "pyobj option" "bool option"
  | Package_info_handler int
  | Translations_handler int "token_lists option"
  | Stats_handler int "(int \<times> int) list" "achievement list"
  | Times_handler int int

datatype loglevel = INFO | WARNING

text \<open>A registered callback is opaque. The model assumes that a registered callback
  returns normally.\<close>

datatype callback = Callback

text \<open>The heartbeat task created by \<^verbatim>\<open>asyncio.create_task\<close>: its interval and whether
  \<^verbatim>\<open>cancel()\<close> was called on it. Its periodic sends are concurrent and are not part of
  the model.\<close>

record Task =
  task_interval :: int
  task_cancelled :: bool

text \<open>An entry of \<^verbatim>\<open>job_list\<close>: the \<^verbatim>\<open>job_name\<close> and, where present, the \<^verbatim>\<open>game_id\<close>.\<close>

record job =
  job_name :: string
  job_game_id :: "pyobj option"

text \<open>
  The fields of \<^verbatim>\<open>ProtobufClient\<close> (\<^verbatim>\<open>__init__\<close>), then the environment:
  \<open>socket_script\<close> gives the outcome of each coming \<^verbatim>\<open>socket.send\<close> (\<open>None\<close> or an empty
  script: the send succeeds), \<open>trace\<close> the events so far, \<open>log\<close> the \<^verbatim>\<open>logger.info\<close> and
  \<^verbatim>\<open>logger.warning\<close> records so far (the logger's level is \<^verbatim>\<open>INFO\<close>, so \<^verbatim>\<open>logger.debug\<close>
  writes nothing).
\<close>

record ProtobufClient =
  log_on_handler :: "callback option"
  log_off_handler :: "callback option"
  relationship_handler :: "callback option"
  user_info_handler :: "callback option"
  license_import_handler :: "callback option"
  app_info_handler :: "callback option"
  package_info_handler :: "callback option"
  translations_handler :: "callback option"
  stats_handler :: "callback option"
  times_handler :: "callback option"
  steam_id :: "int option"
  miniprofile_id :: "int option"
  heartbeat_task :: "Task option"
  session_id :: "int option"
  job_id_iterator :: int
  job_list :: "job list"
  collections_event :: bool
  collections :: "(pyobj \<times> pyobj) list"
  socket_script :: "exn option list"
  trace :: "event list"
  log :: "(loglevel \<times> string) list"

definition PROTO_MASK :: int where
  "PROTO_MASK = 2147483648"

text \<open>\<^verbatim>\<open>__init__\<close>, with the socket's script.\<close>

definition init :: "exn option list \<Rightarrow> ProtobufClient" where
  "init script =
     \<lparr>log_on_handler = None, log_off_handler = None, relationship_handler = None,
      user_info_handler = None, license_import_handler = None, app_info_handler = None,
      package_info_handler = None, translations_handler = None, stats_handler = None,
      times_handler = None, steam_id = None, miniprofile_id = None, heartbeat_task = None,
      session_id = None, job_id_iterator = 1, job_list = [], collections_event = False,
      collections = [], socket_script = script, trace = [], log = []\<rparr>"

subsection \<open>Coroutines as state transformers that may raise\<close>

type_synonym 'a io = "ProtobufClient \<Rightarrow> (exn + 'a) \<times> ProtobufClient"

definition ret :: "'a \<Rightarrow> 'a io" where
  "ret x = (\<lambda>s. (Inr x, s))"

definition throw :: "exn \<Rightarrow> 'a io" where
  "throw e = (\<lambda>s. (Inl e, s))"

definition bnd :: "'a io \<Rightarrow> ('a \<Rightarrow> 'b io) \<Rightarrow> 'b io" where
  "bnd m f = (\<lambda>s. case m s of (Inl e, s') \<Rightarrow> (Inl e, s') | (Inr x, s') \<Rightarrow> f x s')"

definition lift :: "exn + 'a \<Rightarrow> 'a io" where
  "lift r = (\<lambda>s. (r, s))"

definition get :: "(ProtobufClient \<Rightarrow> 'a) \<Rightarrow> 'a io" where
  "get f = (\<lambda>s. (Inr (f s), s))"

definition modify :: "(ProtobufClient \<Rightarrow> ProtobufClient) \<Rightarrow> unit io" where
  "modify f = (\<lambda>s. (Inr (), f s))"

text \<open>\<^verbatim>\<open>try: m except E: h\<close>, where \<open>catches\<close> says which exceptions \<^verbatim>\<open>E\<close> matches.\<close>

definition try_except :: "'a io \<Rightarrow> (exn \<Rightarrow> bool) \<Rightarrow> (exn \<Rightarrow> 'a io) \<Rightarrow> 'a io" where
  "try_except m catches h =
     (\<lambda>s. case m s of
        (Inl e, s') \<Rightarrow> if catches e then h e s' else (Inl e, s')
      | (Inr x, s') \<Rightarrow> (Inr x, s'))"

text \<open>A \<^verbatim>\<open>for\<close> loop over a list; the second form threads the local variable the loop
  updates.\<close>

fun for_each :: "'a list \<Rightarrow> ('a \<Rightarrow> unit io) \<Rightarrow> unit io" where
  "for_each [] f = ret ()"
| "for_each (x # xs) f = bnd (f x) (\<lambda>_. for_each xs f)"

fun fold_each :: "'a list \<Rightarrow> 'b \<Rightarrow> ('b \<Rightarrow> 'a \<Rightarrow> 'b io) \<Rightarrow> 'b io" where
  "fold_each [] acc f = ret acc"
| "fold_each (x # xs) acc f = bnd (f acc x) (\<lambda>acc'. fold_each xs acc' f)"

definition logger :: "loglevel \<Rightarrow> string \<Rightarrow> unit io" where
  "logger level msg = modify (\<lambda>s. s\<lparr>log := log s @ [(level, msg)]\<rparr>)"

definition emit :: "event \<Rightarrow> unit io" where
  "emit ev = modify (\<lambda>s. s\<lparr>trace := trace s @ [ev]\<rparr>)"

text \<open>\<^verbatim>\<open>await self.handler(args)\<close>: calling \<^verbatim>\<open>None\<close> is a \<^verbatim>\<open>TypeError\<close>.\<close>

definition call_handler :: "(ProtobufClient \<Rightarrow> callback option) \<Rightarrow> event \<Rightarrow> unit io" where
  "call_handler handler ev =
     bnd (get handler) (\<lambda>h. case h of None \<Rightarrow> throw TypeError | Some cb \<Rightarrow> emit ev)"

text \<open>\<^verbatim>\<open>await self._socket.send(data)\<close>: the next entry of the script decides.\<close>

definition socket_send :: "bytes \<Rightarrow> unit io" where
  "socket_send data_out =
     (\<lambda>s. case socket_script s of
        [] \<Rightarrow> (Inr (), s\<lparr>trace := trace s @ [Socket_send data_out]\<rparr>)
      | None # script \<Rightarrow>
          (Inr (), s\<lparr>socket_script := script, trace := trace s @ [Socket_send data_out]\<rparr>)
      | Some e # script \<Rightarrow> (Inl e, s\<lparr>socket_script := script\<rparr>))"

definition py_assert :: "bool \<Rightarrow> unit io" where
  "py_assert b = (if b then ret () else throw AssertionError)"

subsection \<open>Outbound calls\<close>

definition set_optional :: "(int \<Rightarrow> exn + int) \<Rightarrow> int option \<Rightarrow> exn + int option" where
  "set_optional check v =
     (case v of None \<Rightarrow> Inr None | Some x \<Rightarrow> rbind (check x) (\<lambda>y. Inr (Some y)))"

text \<open>\<^verbatim>\<open>_send\<close>: a header field is set only when its source is not \<^verbatim>\<open>None\<close>.\<close>

definition send ::
  "env \<Rightarrow> EMsg \<Rightarrow> message \<Rightarrow> int option \<Rightarrow> int option \<Rightarrow> string option \<Rightarrow> unit io" where
  "send env emsg msg source_job_id target_job_id target_job_name' =
     bnd (get steam_id) (\<lambda>sid.
     bnd (lift (set_optional (proto_uint 64) sid)) (\<lambda>h_steamid.
     bnd (get session_id) (\<lambda>sess.
     bnd (lift (set_optional proto_int32 sess)) (\<lambda>h_sessionid.
     bnd (lift (set_optional (proto_uint 64) source_job_id)) (\<lambda>h_source.
     bnd (lift (set_optional (proto_uint 64) target_job_id)) (\<lambda>h_target.
     let proto_header =
           \<lparr>steamid = h_steamid, client_sessionid = h_sessionid, jobid_source = h_source,
            jobid_target = h_target, target_job_name = target_job_name'\<rparr>;
         header = serialize_header env proto_header;
         body = serialize_message env msg
     in
     bnd (lift (rbind (pack_I (emsg_value env emsg OR PROTO_MASK)) (\<lambda>a.
                rbind (pack_I (int (length header))) (\<lambda>b. Inr (a @ b))))) (\<lambda>data_out.
     socket_send (data_out @ header @ body))))))))"

text \<open>\<^verbatim>\<open>log_on\<close>; \<^verbatim>\<open>except Exception\<close> catches every exception of the model.\<close>

definition logon_message :: "string \<Rightarrow> string \<Rightarrow> CMsgClientLogon" where
  "logon_message account_name' token =
     \<lparr>account_name = account_name', protocol_version = 65580, qos_level = 2,
      client_os_type = 4294966596, ui_mode = 4, chat_mode = 2,
      web_logon_nonce = token, client_instance_id = 0\<rparr>"

definition log_on :: "env \<Rightarrow> int \<Rightarrow> int \<Rightarrow> string \<Rightarrow> string \<Rightarrow> unit io" where
  "log_on env steam_id' miniprofile_id' account_name' token =
     (let msg = logon_message account_name' token in
      try_except
        (bnd (modify (\<lambda>s. s\<lparr>steam_id := Some steam_id'\<rparr>)) (\<lambda>_.
         bnd (modify (\<lambda>s. s\<lparr>miniprofile_id := Some miniprofile_id'\<rparr>)) (\<lambda>_.
         send env ClientLogon (MsgClientLogon msg) None None None)))
        (\<lambda>e. True)
        (\<lambda>e. bnd (modify (\<lambda>s. s\<lparr>steam_id := None\<rparr>)) (\<lambda>_. throw e)))"

text \<open>\<^verbatim>\<open>self._heartbeat_task.cancel()\<close>.\<close>

definition heartbeat_task_cancel :: "unit io" where
  "heartbeat_task_cancel =
     bnd (get heartbeat_task) (\<lambda>t.
       case t of
         None \<Rightarrow> throw AttributeError
       | Some task \<Rightarrow> modify (\<lambda>s. s\<lparr>heartbeat_task := Some (task\<lparr>task_cancelled := True\<rparr>)\<rparr>))"


definition next_job_id :: "int io" where
  "next_job_id = (\<lambda>s. (Inr (job_id_iterator s), s\<lparr>job_id_iterator := job_id_iterator s + 1\<rparr>))"

definition import_game_stats :: "env \<Rightarrow> pyobj \<Rightarrow> unit io" where
  "import_game_stats env game_id' =
     bnd (logger INFO ''Importing game stats for'') (\<lambda>_.
     bnd (lift (rbind (py_int (int_of_str env) game_id') (proto_uint 64))) (\<lambda>g.
     send env ClientGetUserStats (MsgClientGetUserStats g) None None None))"

definition import_game_time :: "env \<Rightarrow> pyobj \<Rightarrow> unit io" where
  "import_game_time env game_id' =
     bnd (logger INFO ''Importing game time for'') (\<lambda>_.
     bnd (lift (rbind (py_int (int_of_str env) game_id') (proto_uint 32))) (\<lambda>a.
     bnd (lift (py_int (int_of_str env) game_id')) (\<lambda>source.
     bnd (lift (py_int (int_of_str env) game_id')) (\<lambda>target.
     send env ServiceMethodCallFromClient (MsgPlayer_GetFriendsGameplayInfo_Request a)
       (Some source) (Some target) (Some ''Player.GetFriendsGameplayInfo#1'')))))"

definition import_collections :: "env \<Rightarrow> unit io" where
  "import_collections env =
     bnd next_job_id (\<lambda>job_id.
     send env ServiceMethodCallFromClient (MsgCloudConfigStore_Download_Request [1])
       (Some job_id) None (Some ''CloudConfigStore.Download#1''))"

definition get_apps_info :: "env \<Rightarrow> pyobj list \<Rightarrow> unit io" where
  "get_apps_info env app_ids =
     bnd (logger INFO ''Sending call with'') (\<lambda>_.
     bnd (lift (map_raise (proto_uint_obj 32) app_ids)) (\<lambda>ids.
     send env PICSProductInfoRequest (MsgClientPICSProductInfoRequest [] ids) None None None))"

subsection \<open>Inbound messages\<close>

definition process_client_log_on_response :: "env \<Rightarrow> bytes \<Rightarrow> unit io" where
  "process_client_log_on_response env body =
     bnd (lift (or_raise DecodeError (parse_logon_response env body))) (\<lambda>msg.
     let result = eresult msg in
     bnd (if result = EResult_OK env
          then modify (\<lambda>s. s\<lparr>heartbeat_task :=
                 Some \<lparr>task_interval = out_of_game_heartbeat_seconds msg,
                       task_cancelled = False\<rparr>\<rparr>)
          else ret ()) (\<lambda>_.
     bnd (get log_on_handler) (\<lambda>h.
     if h \<noteq> None then call_handler log_on_handler (Log_on_handler result) else ret ())))"

definition process_client_log_off :: "env \<Rightarrow> bytes \<Rightarrow> unit io" where
  "process_client_log_off env body =
     bnd (lift (or_raise DecodeError (parse_logged_off env body))) (\<lambda>msg.
     let result = loggedoff_eresult msg in
     bnd (get heartbeat_task) (\<lambda>t.
     bnd (py_assert (t \<noteq> None)) (\<lambda>_.
     bnd heartbeat_task_cancel (\<lambda>_.
     bnd (get log_off_handler) (\<lambda>h.
     if h \<noteq> None then call_handler log_off_handler (Log_off_handler result) else ret ())))))"

text \<open>The loop of \<^verbatim>\<open>_process_client_friend_list\<close> over \<^verbatim>\<open>message.friends\<close>, building the
  dictionary \<^verbatim>\<open>friends\<close>.\<close>

fun friends_loop :: "env \<Rightarrow> Friend list \<Rightarrow> (int \<times> int) list \<Rightarrow> exn + (int \<times> int) list" where
  "friends_loop env [] friends' = Inr friends'"
| "friends_loop env (relationship # rest) friends' =
     (let steam_id' = ulfriendid relationship;
          type' = steamid_type env steam_id'
      in
      if type' = EAccountType_Individual env then
        (if valid_EFriendRelationship env (efriendrelationship relationship)
         then friends_loop env rest
                (dict_set steam_id' (efriendrelationship relationship) friends')
         else Inl ValueError)
      else friends_loop env rest friends')"

definition process_client_friend_list :: "env \<Rightarrow> bytes \<Rightarrow> unit io" where
  "process_client_friend_list env body =
     bnd (get relationship_handler) (\<lambda>h.
     if h = None then ret ()
     else
       bnd (lift (or_raise DecodeError (parse_friends_list env body))) (\<lambda>msg.
       bnd (lift (friends_loop env (friends msg) [])) (\<lambda>friends'.
       call_handler relationship_handler (Relationship_handler (bincremental msg) friends'))))"

text \<open>The body of the loop of \<^verbatim>\<open>_process_client_persona_state\<close> over
  \<^verbatim>\<open>message.friends\<close>, for one \<^verbatim>\<open>user\<close>. The inner loop over \<^verbatim>\<open>user.rich_presence\<close>
  builds the dictionary \<^verbatim>\<open>rich_presence\<close>.\<close>

definition rich_presence_element ::
  "int \<Rightarrow> (string \<times> string) list \<Rightarrow> string \<times> string \<Rightarrow> (string \<times> string) list io" where
  "rich_presence_element gameid' rich_presence' element =
     (let rich_presence'' = dict_set (fst element) (snd element) rich_presence' in
      bnd (if fst element = ''status'' \<and> snd element \<noteq> [] then
             (if hd (snd element) = CHR ''#''
              then call_handler translations_handler (Translations_handler gameid' None)
              else ret ())
           else ret ()) (\<lambda>_.
      ret rich_presence''))"

definition persona_state_user :: "env \<Rightarrow> PersonaFriend \<Rightarrow> unit io" where
  "persona_state_user env user =
     (let user_id = friendid user in
      bnd (get steam_id) (\<lambda>sid.
      bnd (if Some user_id = sid \<and> game_played_app_id user \<noteq> 0
           then get_apps_info env [PyInt (game_played_app_id user)]
           else ret ()) (\<lambda>_.
      let user_info = UserInfo_new;
          user_info = (case player_name user of
                         Some n \<Rightarrow> user_info\<lparr>info_name := Some n\<rparr>
                       | None \<Rightarrow> user_info);
          user_info = (case avatar_hash user of
                         Some a \<Rightarrow> user_info\<lparr>info_avatar_hash := Some a\<rparr>
                       | None \<Rightarrow> user_info)
      in
      bnd (case persona_state user of
             Some p \<Rightarrow>
               if valid_EPersonaState env p then ret (user_info\<lparr>info_state := Some p\<rparr>)
               else throw ValueError
           | None \<Rightarrow> ret user_info) (\<lambda>user_info.
      bnd (case gameid user of
             Some g \<Rightarrow>
               bnd (fold_each (rich_presence user) [] (rich_presence_element g)) (\<lambda>rp.
               ret (user_info\<lparr>info_game_id := Some g, info_rich_presence := Some rp\<rparr>))
           | None \<Rightarrow> ret user_info) (\<lambda>user_info.
      let user_info = (case game_name user of
                         Some n \<Rightarrow> user_info\<lparr>info_game_name := Some n\<rparr>
                       | None \<Rightarrow> user_info)
      in
      call_handler user_info_handler (User_info_handler user_id user_info))))))"

definition process_client_persona_state :: "env \<Rightarrow> bytes \<Rightarrow> unit io" where
  "process_client_persona_state env body =
     bnd (get user_info_handler) (\<lambda>h.
     if h = None then ret ()
     else
       bnd (lift (or_raise DecodeError (parse_persona_state env body))) (\<lambda>msg.
       for_each (persona_friends msg) (persona_state_user env)))"

text \<open>The loop of \<^verbatim>\<open>_process_license_list\<close>. \<^verbatim>\<open>int(self._miniprofile_id)\<close> is a
  \<^verbatim>\<open>TypeError\<close> while the profile id is \<^verbatim>\<open>None\<close>; the loop does not change the client, so
  the profile id is read once.\<close>

fun licenses_loop :: "int option \<Rightarrow> License list \<Rightarrow> License list \<Rightarrow> exn + License list" where
  "licenses_loop miniprofile [] licenses_to_check = Inr licenses_to_check"
| "licenses_loop miniprofile (license # rest) licenses_to_check =
     (case miniprofile of
        None \<Rightarrow> Inl TypeError
      | Some p \<Rightarrow>
          if owner_id license = p \<and> flags license \<noteq> 520
          then licenses_loop miniprofile rest (licenses_to_check @ [license])
          else licenses_loop miniprofile rest licenses_to_check)"

definition process_license_list :: "env \<Rightarrow> bytes \<Rightarrow> unit io" where
  "process_license_list env body =
     bnd (get license_import_handler) (\<lambda>h.
     if h = None then ret ()
     else
       bnd (lift (or_raise DecodeError (parse_license_list env body))) (\<lambda>msg.
       bnd (get miniprofile_id) (\<lambda>miniprofile.
       bnd (lift (licenses_loop miniprofile (licenses msg) [])) (\<lambda>licenses_to_check.
       call_handler license_import_handler (License_import_handler licenses_to_check)))))"

text \<open>\<^verbatim>\<open>_process_package_info_response\<close>: the body of the loop over \<^verbatim>\<open>message.packages\<close>
  (with the list \<^verbatim>\<open>apps_to_parse\<close> it extends), then the body of the loop over
  \<^verbatim>\<open>message.apps\<close>.\<close>

definition package_appids :: "pyobj \<Rightarrow> int \<Rightarrow> exn + pyobj" where
  "package_appids package_content packageid' =
     rbind (getitem package_content (str packageid')) (\<lambda>p. getitem p ''appids'')"

definition process_package :: "env \<Rightarrow> pyobj list \<Rightarrow> PackageInfo \<Rightarrow> pyobj list io" where
  "process_package env apps_to_parse info =
     bnd (call_handler package_info_handler (Package_info_handler (packageid info))) (\<lambda>_.
     if packageid info = 0 then
       bnd (logger INFO ''Skipping packageid 0 '') (\<lambda>_. ret apps_to_parse)
     else
       bnd (lift (or_raise SyntaxError (vdf_binary_loads env True (drop 4 (buffer info)))))
         (\<lambda>package_content.
       bnd (lift (rbind (package_appids package_content (packageid info)) py_iter)) (\<lambda>keys.
       fold_each keys apps_to_parse (\<lambda>acc app.
         bnd (lift (rbind (rbind (package_appids package_content (packageid info))
                             (\<lambda>a. getitem a app)) (py_int (int_of_str env)))) (\<lambda>i.
         bnd (call_handler app_info_handler (App_info_handler i None None)) (\<lambda>_.
         bnd (lift (rbind (package_appids package_content (packageid info))
                      (\<lambda>a. getitem a app))) (\<lambda>v.
         ret (acc @ [v]))))))))"

definition process_app :: "env \<Rightarrow> AppInfo \<Rightarrow> unit io" where
  "process_app env info =
     bnd (lift (or_raise SyntaxError
            (vdf_loads env (decode_utf8_replace env (butlast (app_buffer info))))))
       (\<lambda>app_content.
     let appinfo_appid =
           rbind (rbind (getitem app_content ''appinfo'') (\<lambda>a. getitem a ''appid''))
             (py_int (int_of_str env));
         common = rbind (getitem app_content ''appinfo'') (\<lambda>a. getitem a ''common'')
     in
     try_except
       (bnd (lift (rbind (rbind common (\<lambda>c. getitem c ''type'')) py_lower)) (\<lambda>t.
        if t = ''game'' then
          bnd (lift appinfo_appid) (\<lambda>i.
          bnd (lift (rbind common (\<lambda>c. getitem c ''name''))) (\<lambda>title.
          call_handler app_info_handler (App_info_handler i (Some title) (Some True))))
        else
          bnd (lift appinfo_appid) (\<lambda>i.
          call_handler app_info_handler (App_info_handler i None (Some False)))))
       (\<lambda>e. e = KeyError)
       (\<lambda>e. bnd (lift appinfo_appid) (\<lambda>i.
             call_handler app_info_handler (App_info_handler i None (Some False)))))"

definition process_package_info_response :: "env \<Rightarrow> bytes \<Rightarrow> unit io" where
  "process_package_info_response env body =
     bnd (lift (or_raise DecodeError (parse_product_info_response env body))) (\<lambda>msg.
     bnd (fold_each (packages msg) [] (process_package env)) (\<lambda>apps_to_parse.
     bnd (for_each (apps msg) (process_app env)) (\<lambda>_.
     if length apps_to_parse > 0 then
       bnd (logger INFO ''Apps to parse'') (\<lambda>_. get_apps_info env apps_to_parse)
     else ret ())))"

definition process_rich_presence_translations :: "env \<Rightarrow> bytes \<Rightarrow> unit io" where
  "process_rich_presence_translations env body =
     bnd (lift (or_raise DecodeError (parse_localization_response env body))) (\<lambda>msg.
     bnd (logger INFO ''Received information about rich presence translations for'') (\<lambda>_.
     call_handler translations_handler
       (Translations_handler (localization_appid msg) (Some (token_lists msg)))))"

text \<open>\<^verbatim>\<open>_process_user_stats_response\<close>. \<open>schema_bits\<close> is the expression
  \<^verbatim>\<open>achievements_schema[str(game_id)]['stats'][str(achievement_block.achievement_id)]['bits']\<close>,
  \<open>achievement_name\<close> the value assigned to \<^verbatim>\<open>name\<close> inside the \<^verbatim>\<open>try\<close>, and
  \<open>process_unlock_time\<close> the body of the inner loop for one \<^verbatim>\<open>index, unlock_time\<close>.\<close>

definition schema_bits :: "pyobj \<Rightarrow> int \<Rightarrow> int \<Rightarrow> exn + pyobj" where
  "schema_bits achievements_schema game_id' achievement_id' =
     rbind (rbind (rbind (getitem achievements_schema (str game_id'))
       (\<lambda>g. getitem g ''stats''))
       (\<lambda>st. getitem st (str achievement_id')))
       (\<lambda>b. getitem b ''bits'')"

definition achievement_name :: "pyobj \<Rightarrow> int \<Rightarrow> int \<Rightarrow> int \<Rightarrow> exn + pyobj" where
  "achievement_name achievements_schema game_id' achievement_id' index =
     rbind (rbind (rbind (rbind (schema_bits achievements_schema game_id' achievement_id')
       (\<lambda>bits. getitem bits (str index)))
       (\<lambda>bit. getitem bit ''display''))
       (\<lambda>display. getitem display ''name''))
       (\<lambda>n. rbind (contains ''english'' n) (\<lambda>localized.
              if localized then getitem n ''english'' else Inr n))"

definition process_unlock_time ::
  "pyobj \<Rightarrow> int \<Rightarrow> AchievementBlock \<Rightarrow> achievement list \<Rightarrow> int \<times> int \<Rightarrow> achievement list io"
  where
  "process_unlock_time achievements_schema game_id' achievement_block achievements_unlocked iu =
     (let index = fst iu; unlock_time' = snd iu;
          achi_block_enum = 32 * (achievement_id achievement_block - 1)
      in
      if unlock_time' > 0 then
        bnd (lift (rbind (schema_bits achievements_schema game_id'
                            (achievement_id achievement_block))
                     (contains (str index)))) (\<lambda>known.
        if \<not> known then
          bnd (logger INFO ''Non existent achievement unlocked'') (\<lambda>_.
          ret achievements_unlocked)
        else
          try_except
            (bnd (lift (achievement_name achievements_schema game_id'
                          (achievement_id achievement_block) index)) (\<lambda>name.
             ret (achievements_unlocked @
                    [\<lparr>ach_id = achi_block_enum + index, ach_unlock_time = unlock_time',
                      ach_name = name\<rparr>])))
            (\<lambda>e. True)
            (\<lambda>e. bnd (logger INFO ''Unable to parse achievement from block'') (\<lambda>_.
                  bnd (logger INFO ''achievs'') (\<lambda>_.
                  bnd (logger INFO ''achievements_schema'') (\<lambda>_.
                  bnd (logger INFO ''message.schema'') (\<lambda>_.
                  throw UnknownBackendResponse))))))
      else ret achievements_unlocked)"

definition enumerate :: "'a list \<Rightarrow> (int \<times> 'a) list" where
  "enumerate xs = zip (map int [0..<length xs]) xs"

definition process_user_stats_response :: "env \<Rightarrow> bytes \<Rightarrow> unit io" where
  "process_user_stats_response env body =
     bnd (lift (or_raise DecodeError (parse_user_stats_response env body))) (\<lambda>msg.
     bnd (logger INFO ''Processing user stats response for'') (\<lambda>_.
     bnd (lift (or_raise SyntaxError (vdf_binary_loads env False (schema msg))))
       (\<lambda>achievements_schema.
     bnd (fold_each (achievement_blocks msg) [] (\<lambda>unlocked achievement_block.
            fold_each (enumerate (unlock_time achievement_block)) unlocked
              (process_unlock_time achievements_schema (game_id msg) achievement_block)))
       (\<lambda>achievements_unlocked.
     call_handler stats_handler
       (Stats_handler (game_id msg) (stats msg) achievements_unlocked)))))"

definition process_user_time_response :: "env \<Rightarrow> bytes \<Rightarrow> int \<Rightarrow> unit io" where
  "process_user_time_response env body target_job_id =
     bnd (lift (or_raise DecodeError (parse_gameplay_info_response env body))) (\<lambda>msg.
     call_handler times_handler
       (Times_handler target_job_id (your_info_minutes_played_forever msg)))"

text \<open>A dictionary cannot be the key of a dictionary.\<close>

fun hashable :: "pyobj \<Rightarrow> exn + pyobj" where
  "hashable (PyDict kvs) = Inl TypeError"
| "hashable (PyStr s) = Inr (PyStr s)"
| "hashable (PyInt i) = Inr (PyInt i)"

definition process_collections_response :: "env \<Rightarrow> bytes \<Rightarrow> unit io" where
  "process_collections_response env body =
     bnd (lift (or_raise DecodeError (parse_download_response env body))) (\<lambda>msg.
     bnd (for_each (data_entries msg) (\<lambda>entries.
            for_each entries (\<lambda>entry_value.
              try_except
                (bnd (lift (or_raise ValueError (json_loads env entry_value))) (\<lambda>loaded_val.
                 bnd (lift (getitem loaded_val ''added'')) (\<lambda>added.
                 bnd (lift (rbind (getitem loaded_val ''name'') hashable)) (\<lambda>name.
                 modify (\<lambda>s. s\<lparr>collections := dict_set name added (collections s)\<rparr>)))))
                (\<lambda>e. True)
                (\<lambda>e. ret ())))) (\<lambda>_.
     modify (\<lambda>s. s\<lparr>collections_event := True\<rparr>)))"

definition process_service_method_response :: "env \<Rightarrow> string \<Rightarrow> int \<Rightarrow> bytes \<Rightarrow> unit io" where
  "process_service_method_response env target_job_name' target_job_id body =
     bnd (if target_job_name' = ''Community.GetAppRichPresenceLocalization#1''
          then process_rich_presence_translations env body else ret ()) (\<lambda>_.
     bnd (if target_job_name' = ''Player.GetFriendsGameplayInfo#1''
          then process_user_time_response env body target_job_id else ret ()) (\<lambda>_.
     if target_job_name' = ''CloudConfigStore.Download#1''
     then process_collections_response env body else ret ()))"

subsection \<open>Packets, messages and containers\<close>

text \<open>
  \<^verbatim>\<open>_process_packet\<close>, \<^verbatim>\<open>_process_message\<close> and \<^verbatim>\<open>_process_multi\<close> call each other: a
  container holds packets, which may be containers. In the three definitions below
  \<open>process_packet'\<close> stands for the nested call of \<^verbatim>\<open>self._process_packet\<close>;
  \<open>process_packet\<close> ties the knot.

  The \<^verbatim>\<open>while\<close> loop of \<^verbatim>\<open>_process_multi\<close>, with \<^verbatim>\<open>size_bytes = 4\<close>. Python's slices are
  \<open>take\<close> and \<open>drop\<close>: they stop at the end of the buffer.
\<close>

function process_multi_loop :: "(bytes \<Rightarrow> unit io) \<Rightarrow> bytes \<Rightarrow> nat \<Rightarrow> unit io" where
  "process_multi_loop process_packet' data_in offset =
     (if offset + 4 \<le> length data_in then
        bnd (lift (unpack_I (take 4 (drop offset data_in)))) (\<lambda>size'.
        bnd (process_packet' (take (nat size') (drop (offset + 4) data_in))) (\<lambda>_.
        process_multi_loop process_packet' data_in (offset + 4 + nat size')))
      else ret ())"
  by pat_completeness auto
termination
  by (relation "measure (\<lambda>(p, d, offset). length d - offset)") auto

declare process_multi_loop.simps [simp del]

definition process_multi :: "(bytes \<Rightarrow> unit io) \<Rightarrow> env \<Rightarrow> bytes \<Rightarrow> unit io" where
  "process_multi process_packet' env body =
     bnd (lift (or_raise DecodeError (parse_multi env body))) (\<lambda>msg.
     bnd (if size_unzipped msg > 0
          then lift (or_raise GzipError (gzip_decompress env (message_body msg)))
          else ret (message_body msg)) (\<lambda>data_in.
     process_multi_loop process_packet' data_in 0))"

text \<open>Reading a header field that is not set gives the field's default.\<close>

definition header_client_sessionid :: "CMsgProtoBufHeader \<Rightarrow> int" where
  "header_client_sessionid header = (case client_sessionid header of None \<Rightarrow> 0 | Some v \<Rightarrow> v)"

definition header_target_job_name :: "CMsgProtoBufHeader \<Rightarrow> string" where
  "header_target_job_name header = (case target_job_name header of None \<Rightarrow> [] | Some n \<Rightarrow> n)"

definition header_jobid_target :: "env \<Rightarrow> CMsgProtoBufHeader \<Rightarrow> int" where
  "header_jobid_target env header =
     (case jobid_target header of None \<Rightarrow> default_jobid_target env | Some j \<Rightarrow> j)"

definition process_message ::
  "(bytes \<Rightarrow> unit io) \<Rightarrow> env \<Rightarrow> int \<Rightarrow> CMsgProtoBufHeader \<Rightarrow> bytes \<Rightarrow> unit io" where
  "process_message process_packet' env emsg header body =
     (if emsg = emsg_value env Multi then process_multi process_packet' env body
      else if emsg = emsg_value env ClientLogOnResponse
        then process_client_log_on_response env body
      else if emsg = emsg_value env ClientLogOff then process_client_log_off env body
      else if emsg = emsg_value env ClientFriendsList then process_client_friend_list env body
      else if emsg = emsg_value env ClientPersonaState
        then process_client_persona_state env body
      else if emsg = emsg_value env ClientLicenseList then process_license_list env body
      else if emsg = emsg_value env PICSProductInfoResponse
        then process_package_info_response env body
      else if emsg = emsg_value env ClientGetUserStatsResponse
        then process_user_stats_response env body
      else if emsg = emsg_value env ServiceMethod
        then process_service_method_response env (header_target_job_name header)
               (header_jobid_target env header) body
      else if emsg = emsg_value env ServiceMethodResponse
        then process_service_method_response env (header_target_job_name header)
               (header_jobid_target env header) body
      else logger WARNING ''Ignored message %d'')"

text \<open>The body of \<^verbatim>\<open>_process_packet\<close>. After the warning for a packet of fewer than 8
  bytes the source does not return.\<close>

definition process_packet_body :: "(bytes \<Rightarrow> unit io) \<Rightarrow> env \<Rightarrow> bytes \<Rightarrow> unit io" where
  "process_packet_body process_packet' env packet =
     (let package_size = length packet in
      bnd (if package_size < 8 then logger WARNING ''Package too small, ignoring...''
           else ret ()) (\<lambda>_.
      bnd (lift (unpack_I (take 4 packet))) (\<lambda>raw_emsg.
      let emsg = raw_emsg AND NOT PROTO_MASK in
      if raw_emsg AND PROTO_MASK \<noteq> 0 then
        bnd (lift (unpack_I (take 4 (drop 4 packet)))) (\<lambda>header_len.
        bnd (lift (or_raise DecodeError
               (parse_header env (take (nat header_len) (drop 8 packet))))) (\<lambda>header.
        bnd (get session_id) (\<lambda>sid.
        bnd (if sid = None \<and> header_client_sessionid header \<noteq> 0 then
               bnd (logger INFO ''Session id: %d'') (\<lambda>_.
               modify (\<lambda>s. s\<lparr>session_id := Some (header_client_sessionid header)\<rparr>))
             else ret ()) (\<lambda>_.
        process_message process_packet' env emsg header
          (drop (8 + nat header_len) packet)))))
      else logger WARNING ''Packet with extended header - ignoring'')))"

text \<open>\<^verbatim>\<open>_process_packet\<close>. The first argument bounds the depth of nested containers, as
  Python's recursion limit does: a packet nested deeper raises \<^verbatim>\<open>RecursionError\<close>.\<close>

fun process_packet :: "nat \<Rightarrow> env \<Rightarrow> bytes \<Rightarrow> unit io" where
  "process_packet 0 env packet = throw RecursionError"
| "process_packet (Suc depth) env packet =
     process_packet_body (process_packet depth env) env packet"

subsection \<open>The loop\<close>

definition job_list_remove :: "job \<Rightarrow> unit io" where
  "job_list_remove j =
     bnd (get job_list) (\<lambda>jobs.
     if j \<in> set jobs then modify (\<lambda>s. s\<lparr>job_list := remove1 j jobs\<rparr>)
     else throw ValueError)"

text \<open>The body of the loop of \<^verbatim>\<open>run\<close> over the copy of \<^verbatim>\<open>job_list\<close>.\<close>

definition run_job :: "env \<Rightarrow> job \<Rightarrow> unit io" where
  "run_job env j =
     bnd (logger INFO ''New job on list'') (\<lambda>_.
     bnd (if job_name j = ''import_game_stats'' then
            bnd (lift (or_raise KeyError (job_game_id j))) (\<lambda>g.
            bnd (import_game_stats env g) (\<lambda>_.
            bnd (lift (or_raise KeyError (job_game_id j))) (\<lambda>g'.
            bnd (import_game_time env g') (\<lambda>_.
            job_list_remove j))))
          else ret ()) (\<lambda>_.
     if job_name j = ''import_collections'' then
       bnd (import_collections env) (\<lambda>_. job_list_remove j)
     else ret ()))"

text \<open>What one \<^verbatim>\<open>asyncio.wait_for(self._socket.recv(), 0.1)\<close> gives: a packet, a
  timeout, or another exception of the socket.\<close>

datatype recv = Recv bytes | Recv_timeout | Recv_error exn

definition socket_recv :: "recv \<Rightarrow> bytes io" where
  "socket_recv r =
     (case r of Recv packet \<Rightarrow> ret packet | Recv_timeout \<Rightarrow> throw TimeoutError
      | Recv_error e \<Rightarrow> throw e)"

text \<open>\<^verbatim>\<open>run\<close> is \<^verbatim>\<open>while True\<close>: the model runs one iteration for each entry of a finite
  script of what the socket delivers, and stops where an exception leaves the loop.\<close>

fun run :: "nat \<Rightarrow> env \<Rightarrow> recv list \<Rightarrow> unit io" where
  "run depth env [] = ret ()"
| "run depth env (r # script) =
     bnd (bnd (get job_list) (\<lambda>jobs. for_each jobs (run_job env))) (\<lambda>_.
     bnd (try_except
            (bnd (socket_recv r) (\<lambda>packet. process_packet depth env packet))
            (\<lambda>e. e = TimeoutError)
            (\<lambda>e. ret ())) (\<lambda>_.
     run depth env script))"

section \<open>Notions used to state the properties\<close>

text \<open>The events a step added to the trace.\<close>

definition new_events :: "ProtobufClient \<Rightarrow> ProtobufClient \<Rightarrow> event list" where
  "new_events s s' = drop (length (trace s)) (trace s')"

text \<open>The payload of a container that holds exactly the given packets: each one after
  its length, as \<^verbatim>\<open>_process_multi\<close> reads them.\<close>

definition container_payload :: "bytes list \<Rightarrow> bytes" where
  "container_payload packets = concat (map (\<lambda>p. le32 (int (length p)) @ p) packets)"

text \<open>A rich-presence attribute that \<^verbatim>\<open>_process_client_persona_state\<close> takes for a
  localization key: its key is \<^verbatim>\<open>status\<close> and its value starts with \<^verbatim>\<open>#\<close>.\<close>

definition localization_key :: "string \<times> string \<Rightarrow> bool" where
  "localization_key element =
     (fst element = ''status'' \<and> snd element \<noteq> [] \<and> hd (snd element) = CHR ''#'')"

text \<open>The session id is sticky from \<open>s\<close> to \<open>s'\<close>: a known one is kept, and an unknown one
  does not become zero.\<close>

definition sticky :: "ProtobufClient \<Rightarrow> ProtobufClient \<Rightarrow> bool" where
  "sticky s s' =
     (case session_id s of Some v \<Rightarrow> session_id s' = Some v | None \<Rightarrow> session_id s' \<noteq> Some 0)"

text \<open>A sample of the parameters, to run the model on concrete inputs: the message numbers
  of the Steam protocol, parsers that reject every input (a concrete run replaces the one
  it needs), serializers that write nothing.\<close>

definition sample_env :: env where
  "sample_env =
     \<lparr>emsg_value = (\<lambda>m. case m of
          Multi \<Rightarrow> 1 | ClientLogOnResponse \<Rightarrow> 751 | ClientLogOff \<Rightarrow> 706
        | ClientFriendsList \<Rightarrow> 767 | ClientPersonaState \<Rightarrow> 766 | ClientLicenseList \<Rightarrow> 780
        | PICSProductInfoResponse \<Rightarrow> 8904 | ClientGetUserStatsResponse \<Rightarrow> 819
        | ServiceMethod \<Rightarrow> 146 | ServiceMethodResponse \<Rightarrow> 147 | ClientLogon \<Rightarrow> 5514
        | ClientGetUserStats \<Rightarrow> 818 | ServiceMethodCallFromClient \<Rightarrow> 151
        | PICSProductInfoRequest \<Rightarrow> 8903),
      EResult_OK = 1,
      EAccountType_Individual = 1,
      steamid_type = (\<lambda>i. (i div 4503599627370496) mod 16),
      valid_EFriendRelationship = (\<lambda>r. 0 \<le> r \<and> r \<le> 7),
      valid_EPersonaState = (\<lambda>p. 0 \<le> p \<and> p \<le> 7),
      default_jobid_target = 18446744073709551615,
      int_of_str = (\<lambda>s. None),
      parse_header = (\<lambda>b. None),
      parse_multi = (\<lambda>b. None),
      parse_logon_response = (\<lambda>b. None),
      parse_logged_off = (\<lambda>b. None),
      parse_friends_list = (\<lambda>b. None),
      parse_persona_state = (\<lambda>b. None),
      parse_license_list = (\<lambda>b. None),
      parse_product_info_response = (\<lambda>b. None),
      parse_user_stats_response = (\<lambda>b. None),
      parse_localization_response = (\<lambda>b. None),
      parse_gameplay_info_response = (\<lambda>b. None),
      parse_download_response = (\<lambda>b. None),
      serialize_header = (\<lambda>h. []),
      serialize_message = (\<lambda>m. []),
      gzip_decompress = (\<lambda>b. None),
      vdf_binary_loads = (\<lambda>merge b. None),
      decode_utf8_replace = (\<lambda>b. []),
      vdf_loads = (\<lambda>s. None),
      json_loads = (\<lambda>s. None)\<rparr>"

text \<open>Sample inputs.\<close>

definition sample_license_list :: CMsgClientLicenseList where
  "sample_license_list =
     \<lparr>licenses =
        [\<lparr>package_id = 1, owner_id = 42, flags = 0\<rparr>,
         \<lparr>package_id = 2, owner_id = 42, flags = 520\<rparr>,
         \<lparr>package_id = 3, owner_id = 99, flags = 0\<rparr>]\<rparr>"


definition sample_task :: Task where
  "sample_task = \<lparr>task_interval = 9, task_cancelled = False\<rparr>"

text \<open>A slot of an achievement block (its index and unlock time) that is unlocked, has an
  entry under the block's \<^verbatim>\<open>bits\<close> in the schema, and whose display name cannot be read
  from that entry.\<close>

definition unreadable_slot :: "pyobj \<Rightarrow> int \<Rightarrow> int \<Rightarrow> int \<times> int \<Rightarrow> bool" where
  "unreadable_slot achievements_schema game_id' achievement_id' iu =
     (snd iu > 0
      \<and> rbind (schema_bits achievements_schema game_id' achievement_id')
            (contains (str (fst iu))) = Inr True
      \<and> isl (achievement_name achievements_schema game_id' achievement_id' (fst iu)))"

text \<open>A stats response for game 1 whose block 1 has bit 5 unlocked, and a schema for game
  1 and block 1 with the given \<^verbatim>\<open>bits\<close>.\<close>

definition sample_stats_response :: CMsgClientGetUserStatsResponse where
  "sample_stats_response =
     \<lparr>game_id = 1, stats = [],
      achievement_blocks = [\<lparr>achievement_id = 1, unlock_time = [0, 0, 0, 0, 0, 1577836800]\<rparr>],
      schema = []\<rparr>"

definition schema_with_bits :: "(string \<times> pyobj) list \<Rightarrow> pyobj" where
  "schema_with_bits bits =
     PyDict [(''1'', PyDict [(''stats'', PyDict [(''1'', PyDict [(''bits'', PyDict bits)])])])]"

definition sample_stats_env :: "(string \<times> pyobj) list \<Rightarrow> env" where
  "sample_stats_env bits =
     sample_env\<lparr>parse_user_stats_response := \<lambda>b. Some sample_stats_response,
                vdf_binary_loads := \<lambda>merge b. Some (schema_with_bits bits)\<rparr>"

definition sample_logon_response :: CMsgClientLogonResponse where
  "sample_logon_response = \<lparr>eresult = 1, out_of_game_heartbeat_seconds = 9\<rparr>"

definition sample_product_info :: CMsgClientPICSProductInfoResponse where
  "sample_product_info = \<lparr>packages = [\<lparr>packageid = 0, buffer = []\<rparr>], apps = []\<rparr>"

text \<open>A persona-state entry that plays game 730 and has one rich-presence attribute, under
  the given key; and the record the user-info handler gets for it.\<close>

definition sample_persona_friend :: "string \<Rightarrow> PersonaFriend" where
  "sample_persona_friend key =
     \<lparr>friendid = 76561197960265729, game_played_app_id = 0, player_name = None,
      avatar_hash = None, persona_state = None, gameid = Some 730,
      rich_presence = [(key, ''#Status_InGame'')], game_name = None\<rparr>"

definition sample_user_info :: "string \<Rightarrow> UserInfo" where
  "sample_user_info key =
     \<lparr>info_name = None, info_avatar_hash = None, info_state = None, info_game_id = Some 730,
      info_game_name = None, info_rich_presence = Some [(key, ''#Status_InGame'')]\<rparr>"

text \<open>A packet of 8 bytes without the flag of a structured header (it is logged and
  ignored), and parameters whose container parser gives an uncompressed payload.\<close>

definition extended_packet :: bytes where
  "extended_packet = [1, 0, 0, 0, 0, 0, 0, 0]"

definition sample_multi_env :: "bytes \<Rightarrow> env" where
  "sample_multi_env payload =
     sample_env\<lparr>parse_multi := \<lambda>b. Some \<lparr>size_unzipped = 0, message_body = payload\<rparr>\<rparr>"

text \<open>A computation under which the session id is sticky, from whatever state it starts.\<close>

definition keeps_session :: "'a io \<Rightarrow> bool" where
  "keeps_session m = (\<forall>s. sticky s (snd (m s)))"

section \<open>Basic facts\<close>

named_theorems io_defs

lemmas io_unfold [io_defs] =
  ret_def throw_def bnd_def lift_def get_def modify_def try_except_def
  logger_def emit_def call_handler_def py_assert_def or_raise_def rbind_def

lemma new_events_append [simp]: "new_events s (s\<lparr>trace := trace s @ evs\<rparr>) = evs"
  by (simp add: new_events_def)

lemma new_events_same [simp]: "new_events s s = []"
  by (simp add: new_events_def)

section \<open>The license list\<close>

lemma licenses_loop_Some:
  "licenses_loop (Some p) ls acc =
     Inr (acc @ filter (\<lambda>l. owner_id l = p \<and> flags l \<noteq> 520) ls)"
  by (induction ls arbitrary: acc) auto

lemma licenses_loop_None:
  "licenses_loop None ls acc = (if ls = [] then Inr acc else Inl TypeError)"
  by (cases ls) auto

text \<open>
  Claim C7. For every inbound license-list message, the list forwarded to the
  license-import handler holds exactly the entries whose owner id is the session's
  miniprofile id and whose flags are not 520, in their order. With the handler set and
  the profile id known the message is forwarded, as one call; and whatever the state,
  a list that is forwarded is that filtered list.
\<close>

theorem license_list_forwarded:
  assumes "parse_license_list env body = Some msg"
  shows "(license_import_handler s \<noteq> None \<and> miniprofile_id s = Some p \<longrightarrow>
           process_license_list env body s =
             (Inr (), s\<lparr>trace := trace s @
                [License_import_handler
                   (filter (\<lambda>l. owner_id l = p \<and> flags l \<noteq> 520) (licenses msg))]\<rparr>))
       \<and> (\<forall>ls. License_import_handler ls \<in>
                  set (new_events s (snd (process_license_list env body s))) \<longrightarrow>
              ls = filter (\<lambda>l. Some (owner_id l) = miniprofile_id s \<and> flags l \<noteq> 520)
                     (licenses msg))"
  using assms
  by (cases "miniprofile_id s")
     (auto simp: process_license_list_def io_defs licenses_loop_Some licenses_loop_None
        split: option.splits)

text \<open>The example of the claim: profile id 42 and three entries, of which the first is
  forwarded.\<close>

theorem license_list_forwarded_witness:
  "parse_license_list (sample_env\<lparr>parse_license_list := \<lambda>b. Some sample_license_list\<rparr>) []
     = Some sample_license_list
   \<and> process_license_list
       (sample_env\<lparr>parse_license_list := \<lambda>b. Some sample_license_list\<rparr>) []
       ((init [])\<lparr>license_import_handler := Some Callback, miniprofile_id := Some 42\<rparr>)
     = (Inr (),
        (init [])\<lparr>license_import_handler := Some Callback, miniprofile_id := Some 42,
          trace := [License_import_handler [\<lparr>package_id = 1, owner_id = 42, flags = 0\<rparr>]]\<rparr>)"
proof -
  let ?env = "sample_env\<lparr>parse_license_list := \<lambda>b. Some sample_license_list\<rparr>"
  let ?s = "(init [])\<lparr>license_import_handler := Some Callback, miniprofile_id := Some 42\<rparr>"
  have parse: "parse_license_list ?env [] = Some sample_license_list"
    by (simp add: sample_env_def)
  from license_list_forwarded [OF parse, of ?s 42] show ?thesis
    by (simp add: sample_env_def init_def sample_license_list_def)
qed

section \<open>Logging on\<close>

lemma log_on_raises_None:
  "fst (log_on env sid mp name token s) = Inl e \<Longrightarrow>
   steam_id (snd (log_on env sid mp name token s)) = None"
  by (auto simp: log_on_def Let_def io_defs split: prod.splits sum.splits)

text \<open>
  Claim C9. If sending the logon message raises an error, \<^verbatim>\<open>log_on\<close> resets the stored
  steam id to \<^verbatim>\<open>None\<close> and lets the same error through: a failed logon leaves no steam
  id. (The send runs in the state where \<^verbatim>\<open>log_on\<close> has stored both ids.)
\<close>

theorem log_on_failure_resets_steam_id:
  assumes "send env ClientLogon (MsgClientLogon (logon_message name token)) None None None
             (s\<lparr>steam_id := Some sid, miniprofile_id := Some mp\<rparr>) = (Inl e, s1)"
  shows "log_on env sid mp name token s = (Inl e, s1\<lparr>steam_id := None\<rparr>)
       \<and> steam_id (snd (log_on env sid mp name token s)) = None"
  using assms by (simp add: log_on_def Let_def io_defs)

text \<open>A socket whose next send fails with a connection error.\<close>

theorem log_on_failure_resets_steam_id_witness:
  "send sample_env ClientLogon (MsgClientLogon (logon_message ''user'' ''token''))
     None None None
     ((init [Some ConnectionError])\<lparr>steam_id := Some 76561197960265729,
        miniprofile_id := Some 1\<rparr>)
     = (Inl ConnectionError,
        (init [])\<lparr>steam_id := Some 76561197960265729, miniprofile_id := Some 1\<rparr>)
   \<and> log_on sample_env 76561197960265729 1 ''user'' ''token'' (init [Some ConnectionError])
     = (Inl ConnectionError, (init [])\<lparr>miniprofile_id := Some 1\<rparr>)"
proof -
  have failing:
    "send sample_env ClientLogon (MsgClientLogon (logon_message ''user'' ''token''))
       None None None
       ((init [Some ConnectionError])\<lparr>steam_id := Some 76561197960265729,
          miniprofile_id := Some 1\<rparr>)
     = (Inl ConnectionError,
        (init [])\<lparr>steam_id := Some 76561197960265729, miniprofile_id := Some 1\<rparr>)"
    by (simp add: send_def io_defs set_optional_def proto_uint_def proto_int32_def pack_I_def
         socket_send_def sample_env_def init_def PROTO_MASK_def Let_def)
  from log_on_failure_resets_steam_id [OF failing] failing show ?thesis
    by (simp add: init_def)
qed

section \<open>The heartbeat task\<close>




section \<open>Packets that are too short\<close>

lemma unpack_I_length: "length b \<noteq> 4 \<Longrightarrow> unpack_I b = Inl StructError"
  by (auto simp: unpack_I_def split: list.splits)

lemma unpack_I_Inl: "unpack_I b = Inl a \<Longrightarrow> a = StructError"
  by (auto simp: unpack_I_def split: list.splits)

text \<open>
  Claim C2. A packet of three bytes is not dropped: after the warning
  \<^verbatim>\<open>_process_packet\<close> goes on to \<^verbatim>\<open>struct.unpack\<close>, which raises \<^verbatim>\<open>struct.error\<close>; the
  exception leaves \<^verbatim>\<open>_process_packet\<close>.
\<close>

theorem short_packet_raises:
  "process_packet 1 sample_env [1, 0, 0] (init []) =
     (Inl StructError, (init [])\<lparr>log := [(WARNING, ''Package too small, ignoring...'')]\<rparr>)"
  by (simp add: process_packet_body_def io_defs unpack_I_def init_def)

section \<open>The friend list\<close>







section \<open>User stats\<close>

lemma log_update_ex [simp]: "\<exists>l. s = s\<lparr>log := l\<rparr>"
  by (rule exI [of _ "log s"]) simp

lemma unlock_time_cases:
  assumes "schema_bits sch g (achievement_id b) = Inr (PyDict kvs)"
  shows "\<exists>r l. process_unlock_time sch g b acc iu s = (r, s\<lparr>log := l\<rparr>)
           \<and> (unreadable_slot sch g (achievement_id b) iu \<longrightarrow> r = Inl UnknownBackendResponse)
           \<and> (\<not> unreadable_slot sch g (achievement_id b) iu \<longrightarrow> (\<exists>acc'. r = Inr acc'))"
proof (cases "achievement_name sch g (achievement_id b) (fst iu)")
  case (Inl e)
  with assms show ?thesis
    by (auto simp: process_unlock_time_def unreadable_slot_def io_defs Let_def)
next
  case (Inr n)
  with assms show ?thesis
    by (auto simp: process_unlock_time_def unreadable_slot_def io_defs Let_def)
qed

lemma unlock_times_fold:
  assumes "schema_bits sch g (achievement_id b) = Inr (PyDict kvs)"
  shows "\<exists>r l. fold_each ius acc (process_unlock_time sch g b) s = (r, s\<lparr>log := l\<rparr>)
           \<and> ((\<exists>iu \<in> set ius. unreadable_slot sch g (achievement_id b) iu)
                 \<longrightarrow> r = Inl UnknownBackendResponse)
           \<and> (\<not> (\<exists>iu \<in> set ius. unreadable_slot sch g (achievement_id b) iu)
                 \<longrightarrow> (\<exists>acc'. r = Inr acc'))"
proof (induction ius arbitrary: acc s)
  case Nil
  show ?case
    by (rule exI [of _ "Inr acc"], rule exI [of _ "log s"]) (simp add: ret_def)
next
  case (Cons iu ius)
  from unlock_time_cases [OF assms, of acc iu s]
  obtain r1 l1 where step: "process_unlock_time sch g b acc iu s = (r1, s\<lparr>log := l1\<rparr>)"
    and bad: "unreadable_slot sch g (achievement_id b) iu \<Longrightarrow> r1 = Inl UnknownBackendResponse"
    and good: "\<not> unreadable_slot sch g (achievement_id b) iu \<Longrightarrow> \<exists>acc'. r1 = Inr acc'"
    by blast
  show ?case
  proof (cases "unreadable_slot sch g (achievement_id b) iu")
    case True
    with step bad show ?thesis
      by (auto simp: bnd_def)
  next
    case False
    with good obtain acc1 where r1: "r1 = Inr acc1" by blast
    from Cons.IH [of acc1 "s\<lparr>log := l1\<rparr>"]
    obtain r l where rest: "fold_each ius acc1 (process_unlock_time sch g b) (s\<lparr>log := l1\<rparr>)
          = (r, s\<lparr>log := l\<rparr>)"
      and rbad: "(\<exists>iu \<in> set ius. unreadable_slot sch g (achievement_id b) iu)
                 \<longrightarrow> r = Inl UnknownBackendResponse"
      and rgood: "\<not> (\<exists>iu \<in> set ius. unreadable_slot sch g (achievement_id b) iu)
                 \<longrightarrow> (\<exists>acc'. r = Inr acc')"
      by auto
    from step r1 rest have "fold_each (iu # ius) acc (process_unlock_time sch g b) s
        = (r, s\<lparr>log := l\<rparr>)"
      by (simp add: bnd_def)
    with False rbad rgood show ?thesis by auto
  qed
qed

lemma blocks_fold_aux:
  assumes bits: "\<And>b. b \<in> set blocks \<Longrightarrow> \<exists>kvs. schema_bits sch g (achievement_id b) = Inr (PyDict kvs)"
      and bad: "\<And>b. bad b = (\<exists>iu \<in> set (enumerate (unlock_time b)).
                  unreadable_slot sch g (achievement_id b) iu)"
      and f: "\<And>unlocked b. f unlocked b = fold_each (enumerate (unlock_time b)) unlocked
                (process_unlock_time sch g b)"
  shows "\<exists>r l. fold_each blocks acc f s = (r, s\<lparr>log := l\<rparr>)
           \<and> ((\<exists>b \<in> set blocks. bad b) \<longrightarrow> r = Inl UnknownBackendResponse)
           \<and> (\<not> (\<exists>b \<in> set blocks. bad b) \<longrightarrow> (\<exists>acc'. r = Inr acc'))"
  using bits
proof (induction blocks arbitrary: acc s)
  case Nil
  show ?case
    by (rule exI [of _ "Inr acc"], rule exI [of _ "log s"]) (simp add: ret_def)
next
  case (Cons b blocks)
  from Cons.prems [of b] obtain kvs where
    bits: "schema_bits sch g (achievement_id b) = Inr (PyDict kvs)"
    by auto
  from unlock_times_fold [OF bits, of "enumerate (unlock_time b)" acc s]
  obtain r1 l1 where step: "f acc b s = (r1, s\<lparr>log := l1\<rparr>)"
    and bad1: "bad b \<longrightarrow> r1 = Inl UnknownBackendResponse"
    and good1: "\<not> bad b \<longrightarrow> (\<exists>acc'. r1 = Inr acc')"
    unfolding bad f by blast
  show ?case
  proof (cases "bad b")
    case True
    with bad1 have "r1 = Inl UnknownBackendResponse" by simp
    with step have "fold_each (b # blocks) acc f s = (Inl UnknownBackendResponse, s\<lparr>log := l1\<rparr>)"
      by (simp add: bnd_def)
    with True show ?thesis by auto
  next
    case False
    with good1 obtain acc1 where r1: "r1 = Inr acc1" by blast
    have "\<exists>r l. fold_each blocks acc1 f (s\<lparr>log := l1\<rparr>) = (r, s\<lparr>log := l1\<rparr>\<lparr>log := l\<rparr>)
           \<and> ((\<exists>b \<in> set blocks. bad b) \<longrightarrow> r = Inl UnknownBackendResponse)
           \<and> (\<not> (\<exists>b \<in> set blocks. bad b) \<longrightarrow> (\<exists>acc'. r = Inr acc'))"
      by (rule Cons.IH) (rule Cons.prems, simp)
    then obtain r l where rest: "fold_each blocks acc1 f (s\<lparr>log := l1\<rparr>) = (r, s\<lparr>log := l\<rparr>)"
      and rbad: "(\<exists>b \<in> set blocks. bad b) \<longrightarrow> r = Inl UnknownBackendResponse"
      and rgood: "\<not> (\<exists>b \<in> set blocks. bad b) \<longrightarrow> (\<exists>acc'. r = Inr acc')"
      by auto
    from step r1 rest have all: "fold_each (b # blocks) acc f s = (r, s\<lparr>log := l\<rparr>)"
      by (simp add: bnd_def)
    from False rbad have c1: "(\<exists>b' \<in> set (b # blocks). bad b') \<longrightarrow> r = Inl UnknownBackendResponse"
      by simp
    from False rgood have c2: "\<not> (\<exists>b' \<in> set (b # blocks). bad b') \<longrightarrow> (\<exists>acc'. r = Inr acc')"
      by simp
    from all c1 c2 show ?thesis by blast
  qed
qed

lemma blocks_fold:
  assumes "\<forall>b \<in> set blocks. \<exists>kvs. schema_bits sch g (achievement_id b) = Inr (PyDict kvs)"
  shows "\<exists>r l. fold_each blocks acc
             (\<lambda>unlocked b. fold_each (enumerate (unlock_time b)) unlocked
                (process_unlock_time sch g b)) s = (r, s\<lparr>log := l\<rparr>)
           \<and> ((\<exists>b \<in> set blocks. \<exists>iu \<in> set (enumerate (unlock_time b)).
                  unreadable_slot sch g (achievement_id b) iu)
                 \<longrightarrow> r = Inl UnknownBackendResponse)
           \<and> (\<not> (\<exists>b \<in> set blocks. \<exists>iu \<in> set (enumerate (unlock_time b)).
                  unreadable_slot sch g (achievement_id b) iu)
                 \<longrightarrow> (\<exists>acc'. r = Inr acc'))"
  by (rule blocks_fold_aux) (use assms in simp_all)

lemma str_small: "0 \<le> i \<Longrightarrow> i < 10 \<Longrightarrow> str i = [''0123456789'' ! nat i]"
  by (simp add: str_def str_nat.simps)

text \<open>
  Claim C1, as amended. An unlocked slot (unlock time above zero) whose bit index has no
  entry under the block's \<^verbatim>\<open>bits\<close> in the schema is skipped, leaving an \<^verbatim>\<open>INFO\<close> record in
  the log, and does not fail the response. Where the schema has a \<^verbatim>\<open>bits\<close> dictionary for
  every block of the response: if some unlocked slot has an entry whose display name
  cannot be read, processing fails with \<^verbatim>\<open>UnknownBackendResponse\<close> for the whole response
  and the stats handler is not called; if there is no such slot and the stats handler is
  set, processing succeeds and calls the stats handler once.
\<close>

theorem stats_unknown_achievement:
  assumes parse: "parse_user_stats_response env body = Some msg"
      and loads: "vdf_binary_loads env False (schema msg) = Some sch"
      and bits: "\<forall>b \<in> set (achievement_blocks msg).
                  \<exists>kvs. schema_bits sch (game_id msg) (achievement_id b) = Inr (PyDict kvs)"
  shows "(0 < t \<and> schema_bits sch g (achievement_id blk) = Inr bts
            \<and> contains (str i) bts = Inr False \<longrightarrow>
          process_unlock_time sch g blk acc (i, t) s =
            (Inr acc, s\<lparr>log := log s @ [(INFO, ''Non existent achievement unlocked'')]\<rparr>))
       \<and> ((\<exists>b \<in> set (achievement_blocks msg). \<exists>iu \<in> set (enumerate (unlock_time b)).
               unreadable_slot sch (game_id msg) (achievement_id b) iu) \<longrightarrow>
            fst (process_user_stats_response env body s) = Inl UnknownBackendResponse
            \<and> new_events s (snd (process_user_stats_response env body s)) = [])
       \<and> (\<not> (\<exists>b \<in> set (achievement_blocks msg). \<exists>iu \<in> set (enumerate (unlock_time b)).
               unreadable_slot sch (game_id msg) (achievement_id b) iu)
            \<and> stats_handler s \<noteq> None \<longrightarrow>
            fst (process_user_stats_response env body s) = Inr ()
            \<and> (\<exists>unlocked. new_events s (snd (process_user_stats_response env body s)) =
                  [Stats_handler (game_id msg) (stats msg) unlocked]))"
proof (intro conjI impI)
  assume "0 < t \<and> schema_bits sch g (achievement_id blk) = Inr bts
            \<and> contains (str i) bts = Inr False"
  then show "process_unlock_time sch g blk acc (i, t) s =
            (Inr acc, s\<lparr>log := log s @ [(INFO, ''Non existent achievement unlocked'')]\<rparr>)"
    by (simp add: process_unlock_time_def io_defs Let_def)
next
  let ?s1 = "s\<lparr>log := log s @ [(INFO, ''Processing user stats response for'')]\<rparr>"
  from blocks_fold [OF bits, of "[]" ?s1]
  obtain r l where fold: "fold_each (achievement_blocks msg) []
             (\<lambda>unlocked b. fold_each (enumerate (unlock_time b)) unlocked
                (process_unlock_time sch (game_id msg) b)) ?s1 = (r, ?s1\<lparr>log := l\<rparr>)"
    and bad: "(\<exists>b \<in> set (achievement_blocks msg). \<exists>iu \<in> set (enumerate (unlock_time b)).
                  unreadable_slot sch (game_id msg) (achievement_id b) iu)
                 \<longrightarrow> r = Inl UnknownBackendResponse"
    and good: "\<not> (\<exists>b \<in> set (achievement_blocks msg). \<exists>iu \<in> set (enumerate (unlock_time b)).
                  unreadable_slot sch (game_id msg) (achievement_id b) iu)
                 \<longrightarrow> (\<exists>acc'. r = Inr acc')"
    by blast
  {
    assume "\<exists>b \<in> set (achievement_blocks msg). \<exists>iu \<in> set (enumerate (unlock_time b)).
               unreadable_slot sch (game_id msg) (achievement_id b) iu"
    with bad have r: "r = Inl UnknownBackendResponse" by blast
    from parse loads fold r
    have "process_user_stats_response env body s = (Inl UnknownBackendResponse, ?s1\<lparr>log := l\<rparr>)"
      by (simp add: process_user_stats_response_def io_defs)
    then show "fst (process_user_stats_response env body s) = Inl UnknownBackendResponse"
      and "new_events s (snd (process_user_stats_response env body s)) = []"
      by (simp_all add: new_events_def)
  }
  {
    assume "\<not> (\<exists>b \<in> set (achievement_blocks msg). \<exists>iu \<in> set (enumerate (unlock_time b)).
               unreadable_slot sch (game_id msg) (achievement_id b) iu)
            \<and> stats_handler s \<noteq> None"
    with good obtain unlocked where r: "r = Inr unlocked" and h: "stats_handler s \<noteq> None"
      by blast
    from parse loads fold r h
    have "process_user_stats_response env body s =
        (Inr (), ?s1\<lparr>log := l, trace := trace s @ [Stats_handler (game_id msg) (stats msg) unlocked]\<rparr>)"
      by (auto simp: process_user_stats_response_def io_defs)
    then show "fst (process_user_stats_response env body s) = Inr ()"
      and "\<exists>unlocked. new_events s (snd (process_user_stats_response env body s)) =
                  [Stats_handler (game_id msg) (stats msg) unlocked]"
      by (simp_all add: new_events_def)
  }
qed

text \<open>The response of the sample with a schema whose bit 5 has no display name (it fails),
  and with a schema that has no bit 5 (the handler is called).\<close>

theorem stats_unknown_achievement_witness:
  "parse_user_stats_response (sample_stats_env [(''5'', PyDict [])]) [] = Some sample_stats_response
   \<and> vdf_binary_loads (sample_stats_env [(''5'', PyDict [])]) False (schema sample_stats_response)
       = Some (schema_with_bits [(''5'', PyDict [])])
   \<and> unreadable_slot (schema_with_bits [(''5'', PyDict [])]) 1 1 (5, 1577836800)
   \<and> process_user_stats_response (sample_stats_env [(''5'', PyDict [])]) []
         ((init [])\<lparr>stats_handler := Some Callback\<rparr>)
       = (Inl UnknownBackendResponse,
          (init [])\<lparr>stats_handler := Some Callback,
            log := [(INFO, ''Processing user stats response for''),
                    (INFO, ''Unable to parse achievement from block''),
                    (INFO, ''achievs''), (INFO, ''achievements_schema''),
                    (INFO, ''message.schema'')]\<rparr>)
   \<and> contains (str 5) (PyDict [(''0'', PyDict [])]) = Inr False
   \<and> fst (process_user_stats_response (sample_stats_env [(''0'', PyDict [])]) []
         ((init [])\<lparr>stats_handler := Some Callback\<rparr>)) = Inr ()
   \<and> new_events ((init [])\<lparr>stats_handler := Some Callback\<rparr>)
        (snd (process_user_stats_response (sample_stats_env [(''0'', PyDict [])]) []
           ((init [])\<lparr>stats_handler := Some Callback\<rparr>)))
       = [Stats_handler 1 [] []]"
proof -
  let ?s = "(init [])\<lparr>stats_handler := Some Callback\<rparr>"
  let ?broken = "sample_stats_env [(''5'', PyDict [])]"
  let ?missing = "sample_stats_env [(''0'', PyDict [])]"
  have bits: "\<And>bits. \<forall>b \<in> set (achievement_blocks sample_stats_response).
       \<exists>kvs. schema_bits (schema_with_bits bits) (game_id sample_stats_response) (achievement_id b)
              = Inr (PyDict kvs)"
    by (simp add: sample_stats_response_def schema_with_bits_def schema_bits_def rbind_def
          str_small)
  have broken: "unreadable_slot (schema_with_bits [(''5'', PyDict [])]) 1 1 (5, 1577836800)"
    by (simp add: unreadable_slot_def schema_with_bits_def schema_bits_def achievement_name_def
          rbind_def str_small)
  have missing: "\<not> (\<exists>b \<in> set (achievement_blocks sample_stats_response).
        \<exists>iu \<in> set (enumerate (unlock_time b)).
          unreadable_slot (schema_with_bits [(''0'', PyDict [])]) (game_id sample_stats_response)
            (achievement_id b) iu)"
    by (simp add: unreadable_slot_def schema_with_bits_def schema_bits_def achievement_name_def
          rbind_def str_small sample_stats_response_def enumerate_def)
  have run_broken: "process_user_stats_response ?broken [] ?s
       = (Inl UnknownBackendResponse,
          (init [])\<lparr>stats_handler := Some Callback,
            log := [(INFO, ''Processing user stats response for''),
                    (INFO, ''Unable to parse achievement from block''),
                    (INFO, ''achievs''), (INFO, ''achievements_schema''),
                    (INFO, ''message.schema'')]\<rparr>)"
    by (simp add: process_user_stats_response_def process_unlock_time_def io_defs Let_def
        sample_stats_env_def sample_stats_response_def schema_with_bits_def sample_env_def
        init_def enumerate_def schema_bits_def achievement_name_def str_small)
  have p1: "parse_user_stats_response ?missing [] = Some sample_stats_response"
    and l1: "vdf_binary_loads ?missing False (schema sample_stats_response)
             = Some (schema_with_bits [(''0'', PyDict [])])"
    and p2: "parse_user_stats_response ?broken [] = Some sample_stats_response"
    and l2: "vdf_binary_loads ?broken False (schema sample_stats_response)
             = Some (schema_with_bits [(''5'', PyDict [])])"
    by (simp_all add: sample_stats_env_def sample_env_def)
  have handler: "stats_handler ?s \<noteq> None" by simp
  from stats_unknown_achievement [OF p1 l1 bits, where s = ?s] missing handler
  have ok: "fst (process_user_stats_response ?missing [] ?s) = Inr ()"
    and ev: "\<exists>unlocked. new_events ?s (snd (process_user_stats_response ?missing [] ?s)) =
                  [Stats_handler (game_id sample_stats_response) (stats sample_stats_response) unlocked]"
    by blast+
  have ev': "new_events ?s (snd (process_user_stats_response ?missing [] ?s)) = [Stats_handler 1 [] []]"
    by (simp add: process_user_stats_response_def process_unlock_time_def io_defs Let_def
        sample_stats_env_def sample_stats_response_def schema_with_bits_def sample_env_def
        init_def enumerate_def schema_bits_def achievement_name_def str_small new_events_def)
  have c: "contains (str 5) (PyDict [(''0'', PyDict [])]) = Inr False"
    by (simp add: str_small)
  from p2 l2 broken run_broken c ok ev' show ?thesis by simp
qed

text \<open>The claim as stated fails on the example of the spec: block 1, bit 5 unlocked, no
  entry for bit 5 in the schema. The achievement is skipped and the handler is called with
  no achievement.\<close>

theorem stats_missing_bit_is_skipped:
  "process_user_stats_response
     (sample_stats_env [(''0'', PyDict [(''display'', PyDict [(''name'', PyStr ''First'')])])]) []
     ((init [])\<lparr>stats_handler := Some Callback\<rparr>)
   = (Inr (),
      (init [])\<lparr>stats_handler := Some Callback,
        trace := [Stats_handler 1 [] []],
        log := [(INFO, ''Processing user stats response for''),
                (INFO, ''Non existent achievement unlocked'')]\<rparr>)"
  by (simp add: process_user_stats_response_def process_unlock_time_def io_defs Let_def
        sample_stats_env_def sample_stats_response_def schema_with_bits_def sample_env_def
        init_def enumerate_def schema_bits_def str_small)

section \<open>Handlers that are not set\<close>

text \<open>
  Claim C4, as amended. For a friend-list, a persona-state and a license-list message, an
  unset handler (relationship, user-info, license-import) skips the branch entirely: the
  message is not parsed, nothing is called, nothing is raised and the client is unchanged.
  For a logon response and a logoff message an unset handler skips the callback alone:
  the heartbeat task is still started (result OK) or cancelled.
\<close>

theorem unset_handler_skips:
  "(relationship_handler s = None \<longrightarrow> process_client_friend_list env body s = (Inr (), s))
   \<and> (user_info_handler s = None \<longrightarrow> process_client_persona_state env body s = (Inr (), s))
   \<and> (license_import_handler s = None \<longrightarrow> process_license_list env body s = (Inr (), s))
   \<and> (log_on_handler s = None \<and> parse_logon_response env body = Some logon \<longrightarrow>
        process_client_log_on_response env body s =
          (Inr (),
           if eresult logon = EResult_OK env
           then s\<lparr>heartbeat_task :=
                  Some \<lparr>task_interval = out_of_game_heartbeat_seconds logon,
                        task_cancelled = False\<rparr>\<rparr>
           else s))
   \<and> (log_off_handler s = None \<and> parse_logged_off env body = Some logoff
        \<and> heartbeat_task s = Some t \<longrightarrow>
        process_client_log_off env body s =
          (Inr (), s\<lparr>heartbeat_task := Some (t\<lparr>task_cancelled := True\<rparr>)\<rparr>))"
  by (simp add: process_client_friend_list_def process_client_persona_state_def
        process_license_list_def process_client_log_on_response_def
        process_client_log_off_def heartbeat_task_cancel_def io_defs Let_def)

text \<open>A fresh client, which has no handler set.\<close>

theorem unset_handler_skips_witness:
  "process_client_friend_list sample_env [] (init []) = (Inr (), init [])
   \<and> process_client_persona_state sample_env [] (init []) = (Inr (), init [])
   \<and> process_license_list sample_env [] (init []) = (Inr (), init [])
   \<and> parse_logon_response
        (sample_env\<lparr>parse_logon_response := \<lambda>b. Some sample_logon_response,
           parse_logged_off := \<lambda>b. Some \<lparr>loggedoff_eresult = 1\<rparr>\<rparr>) [] = Some sample_logon_response
   \<and> process_client_log_on_response
        (sample_env\<lparr>parse_logon_response := \<lambda>b. Some sample_logon_response,
           parse_logged_off := \<lambda>b. Some \<lparr>loggedoff_eresult = 1\<rparr>\<rparr>) [] (init [])
      = (Inr (), (init [])\<lparr>heartbeat_task := Some \<lparr>task_interval = 9, task_cancelled = False\<rparr>\<rparr>)
   \<and> process_client_log_off
        (sample_env\<lparr>parse_logon_response := \<lambda>b. Some sample_logon_response,
           parse_logged_off := \<lambda>b. Some \<lparr>loggedoff_eresult = 1\<rparr>\<rparr>) []
        ((init [])\<lparr>heartbeat_task := Some sample_task\<rparr>)
      = (Inr (), (init [])\<lparr>heartbeat_task := Some (sample_task\<lparr>task_cancelled := True\<rparr>)\<rparr>)"
proof -
  let ?env = "sample_env\<lparr>parse_logon_response := \<lambda>b. Some sample_logon_response,
           parse_logged_off := \<lambda>b. Some \<lparr>loggedoff_eresult = 1\<rparr>\<rparr>"
  have unset: "relationship_handler (init []) = None" "user_info_handler (init []) = None"
    "license_import_handler (init []) = None" "log_on_handler (init []) = None"
    "log_off_handler ((init [])\<lparr>heartbeat_task := Some sample_task\<rparr>) = None"
    by (simp_all add: init_def)
  have parse: "parse_logon_response ?env [] = Some sample_logon_response"
    "parse_logged_off ?env [] = Some \<lparr>loggedoff_eresult = 1\<rparr>"
    by (simp_all add: sample_env_def)
  have ok: "eresult sample_logon_response = EResult_OK ?env"
    "out_of_game_heartbeat_seconds sample_logon_response = 9"
    by (simp_all add: sample_env_def sample_logon_response_def)
  from unset_handler_skips [of "init []" sample_env "[]"]
  have a: "process_client_friend_list sample_env [] (init []) = (Inr (), init [])"
    and b: "process_client_persona_state sample_env [] (init []) = (Inr (), init [])"
    and c: "process_license_list sample_env [] (init []) = (Inr (), init [])"
    using unset by blast+
  from unset_handler_skips [of "init []" ?env "[]" sample_logon_response] unset parse ok
  have d: "process_client_log_on_response ?env [] (init [])
      = (Inr (), (init [])\<lparr>heartbeat_task := Some \<lparr>task_interval = 9, task_cancelled = False\<rparr>\<rparr>)"
    by simp
  from unset_handler_skips [of "(init [])\<lparr>heartbeat_task := Some sample_task\<rparr>" ?env "[]" _ _
          sample_task] unset parse
  have e: "process_client_log_off ?env [] ((init [])\<lparr>heartbeat_task := Some sample_task\<rparr>)
      = (Inr (), (init [])\<lparr>heartbeat_task := Some (sample_task\<lparr>task_cancelled := True\<rparr>)\<rparr>)"
    by simp
  from a b c d e parse show ?thesis by simp
qed

text \<open>The claim as stated fails: with no logon handler a successful logon response still
  starts the heartbeat task, and with no package-info handler a product-info response with
  a package raises a \<^verbatim>\<open>TypeError\<close>.\<close>

theorem unset_handler_not_skipped:
  "process_client_log_on_response
     (sample_env\<lparr>parse_logon_response := \<lambda>b. Some sample_logon_response\<rparr>) [] (init [])
   = (Inr (), (init [])\<lparr>heartbeat_task := Some \<lparr>task_interval = 9, task_cancelled = False\<rparr>\<rparr>)
   \<and> process_package_info_response
     (sample_env\<lparr>parse_product_info_response := \<lambda>b. Some sample_product_info\<rparr>) [] (init [])
   = (Inl TypeError, init [])"
  by (simp add: process_client_log_on_response_def process_package_info_response_def
        process_package_def io_defs Let_def sample_env_def init_def sample_logon_response_def
        sample_product_info_def)

section \<open>Persona state\<close>

lemma bnd_Inr:
  "bnd m f s = (Inr y, s') \<Longrightarrow> \<exists>x s1. m s = (Inr x, s1) \<and> f x s1 = (Inr y, s')"
  by (auto simp: bnd_def split: prod.splits sum.splits)

lemma send_Inr:
  assumes "send env emsg msg src tgt name s = (Inr (), s')"
  shows "\<exists>d. trace s' = trace s @ [Socket_send d]"
  using assms
  by (auto simp: send_def socket_send_def io_defs Let_def
        split: sum.splits list.splits option.splits)

lemma get_apps_info_Inr:
  assumes "get_apps_info env ids s = (Inr (), s')"
  shows "\<exists>d. trace s' = trace s @ [Socket_send d]"
proof -
  from assms obtain ids' where
    snd: "send env PICSProductInfoRequest (MsgClientPICSProductInfoRequest [] ids')
               None None None (s\<lparr>log := log s @ [(INFO, ''Sending call with'')]\<rparr>) = (Inr (), s')"
    by (auto simp: get_apps_info_def io_defs split: sum.splits)
  from send_Inr [OF snd] show ?thesis by simp
qed

lemma rich_presence_element_Inr:
  assumes "rich_presence_element g rp element s = (Inr rp', s')"
  shows "s' = s\<lparr>trace := trace s @
                 (if localization_key element then [Translations_handler g None] else [])\<rparr>"
  using assms
  by (auto simp: rich_presence_element_def localization_key_def io_defs Let_def
        split: if_splits option.splits)

lemma rich_presence_fold_Inr:
  "fold_each elements rp (rich_presence_element g) s = (Inr rp', s') \<Longrightarrow>
   s' = s\<lparr>trace := trace s @
          map (\<lambda>e. Translations_handler g None) (filter localization_key elements)\<rparr>"
proof (induction elements arbitrary: rp s)
  case Nil
  then show ?case by (simp add: ret_def)
next
  case (Cons e elements)
  from bnd_Inr [OF Cons.prems [simplified]]
  obtain rp1 s1 where
    first: "rich_presence_element g rp e s = (Inr rp1, s1)"
    and rest: "fold_each elements rp1 (rich_presence_element g) s1 = (Inr rp', s')"
    by blast
  from rich_presence_element_Inr [OF first] Cons.IH [OF rest] show ?case
    by simp
qed

lemma bnd_chain:
  "bnd (get f) (\<lambda>x. bnd (A x) (\<lambda>_. bnd B (\<lambda>u. bnd (C u) D))) s = (Inr (), s') \<Longrightarrow>
   \<exists>s1 u s2 v s3. A (f s) s = (Inr (), s1) \<and> B s1 = (Inr u, s2) \<and> C u s2 = (Inr v, s3)
      \<and> D v s3 = (Inr (), s')"
  by (auto dest!: bnd_Inr simp: get_def)

text \<open>
  Claim C8, as amended. When an entry of a persona-state message is processed to the end,
  the events it adds are, in this order: the product-info request for the client's own
  game, if any; one call of the translations handler with the entry's game id for every
  rich-presence attribute whose key is \<^verbatim>\<open>status\<close> and whose value starts with \<^verbatim>\<open>#\<close>,
  provided the entry has a game id; and last the call of the user-info handler with the
  per-user record. An attribute under another key, and an entry without a game id,
  trigger no translation.
\<close>

theorem persona_state_translation_first:
  assumes "persona_state_user env user s = (Inr (), s')"
  shows "\<exists>sends info.
           new_events s s' =
             sends @
             (case gameid user of
                None \<Rightarrow> []
              | Some g \<Rightarrow> map (\<lambda>e. Translations_handler g None)
                           (filter localization_key (rich_presence user))) @
             [User_info_handler (friendid user) info]
           \<and> (\<forall>e \<in> set sends. \<exists>d. e = Socket_send d)"
proof -
  let ?transl = "case gameid user of
                None \<Rightarrow> []
              | Some g \<Rightarrow> map (\<lambda>e. Translations_handler g None)
                           (filter localization_key (rich_presence user))"
  from bnd_chain [OF assms [unfolded persona_state_user_def Let_def]] show ?thesis
  proof (elim exE conjE, goal_cases)
    case (1 s1 u s2 v s3)
    note apps = 1(1) and state = 1(2) and game = 1(3) and handler = 1(4)
    from apps obtain sends where t1: "trace s1 = trace s @ sends"
      and sends: "\<forall>e \<in> set sends. \<exists>d. e = Socket_send d"
      by (auto simp: ret_def dest!: get_apps_info_Inr split: if_splits)
    from state have s2: "s2 = s1"
      by (auto simp: ret_def throw_def split: option.splits if_splits)
    from game have s3: "trace s3 = trace s2 @ ?transl"
      by (auto simp: ret_def dest!: bnd_Inr rich_presence_fold_Inr split: option.splits)
    from handler obtain info where
      t': "trace s' = trace s3 @ [User_info_handler (friendid user) info]"
      by (auto simp: io_defs split: option.splits)
    from t1 s2 s3 t' have "new_events s s' =
        sends @ ?transl @ [User_info_handler (friendid user) info]"
      by (simp add: new_events_def)
    with sends show ?case by blast
  qed
qed

text \<open>An entry whose \<^verbatim>\<open>status\<close> attribute starts with \<^verbatim>\<open>#\<close>.\<close>

theorem persona_state_translation_first_witness:
  "persona_state_user sample_env (sample_persona_friend ''status'')
     ((init [])\<lparr>user_info_handler := Some Callback, translations_handler := Some Callback\<rparr>)
   = (Inr (),
      (init [])\<lparr>user_info_handler := Some Callback, translations_handler := Some Callback,
        trace := [Translations_handler 730 None,
                  User_info_handler 76561197960265729 (sample_user_info ''status'')]\<rparr>)
   \<and> (\<exists>sends info.
        [Translations_handler 730 None,
         User_info_handler 76561197960265729 (sample_user_info ''status'')]
        = sends @ [Translations_handler 730 None] @ [User_info_handler 76561197960265729 info])"
proof -
  let ?s = "(init [])\<lparr>user_info_handler := Some Callback, translations_handler := Some Callback\<rparr>"
  have run: "persona_state_user sample_env (sample_persona_friend ''status'') ?s
     = (Inr (), ?s\<lparr>trace := [Translations_handler 730 None,
                  User_info_handler 76561197960265729 (sample_user_info ''status'')]\<rparr>)"
    by (simp add: persona_state_user_def rich_presence_element_def io_defs Let_def
          sample_persona_friend_def sample_user_info_def UserInfo_new_def init_def)
  from persona_state_translation_first [OF run] run show ?thesis
    by (simp add: new_events_def init_def sample_persona_friend_def localization_key_def)
qed

text \<open>The claim as stated fails: a value that starts with \<^verbatim>\<open>#\<close> under the key
  \<^verbatim>\<open>steam_display\<close> triggers no translation, although the entry has a game id and both
  handlers are set.\<close>

theorem presence_value_under_other_key:
  "process_client_persona_state
     (sample_env\<lparr>parse_persona_state :=
        \<lambda>b. Some \<lparr>persona_friends = [sample_persona_friend ''steam_display'']\<rparr>\<rparr>) []
     ((init [])\<lparr>user_info_handler := Some Callback, translations_handler := Some Callback\<rparr>)
   = (Inr (),
      (init [])\<lparr>user_info_handler := Some Callback, translations_handler := Some Callback,
        trace := [User_info_handler 76561197960265729 (sample_user_info ''steam_display'')]\<rparr>)"
  by (simp add: process_client_persona_state_def persona_state_user_def
        rich_presence_element_def io_defs Let_def sample_env_def
        sample_persona_friend_def sample_user_info_def UserInfo_new_def init_def)

section \<open>Containers\<close>

lemma le32_length [simp]: "length (le32 n) = 4"
  by (simp add: le32_def)

lemma split256: "(x :: int) = x mod 256 + 256 * (x div 256)"
  by (rule mod_mult_div_eq [symmetric])

lemma div_256_256: "(n::int) div 256 div 256 = n div 65536"
  by (subst zdiv_zmult2_eq [symmetric]) simp_all

lemma div_65536_256: "(n::int) div 65536 div 256 = n div 16777216"
  by (subst zdiv_zmult2_eq [symmetric]) simp_all

lemma div_16777216_nonneg: "0 \<le> (n::int) \<Longrightarrow> 0 \<le> n div 16777216"
  by (simp add: pos_imp_zdiv_nonneg_iff)

lemma div_16777216_less: "(n::int) < 4294967296 \<Longrightarrow> n div 16777216 < 256"
  by (simp add: div_less_iff_less_mult)

lemma le32_linear:
  "(n::int) = m0 + 256 * (a + 256 * (b + 256 * c)) \<Longrightarrow>
   m0 + 256 * a + 65536 * b + 16777216 * c = n"
  by simp

lemma le32_sum:
  fixes n :: int
  assumes "0 \<le> n" "n < 4294967296"
  shows "n mod 256 + 256 * (n div 256 mod 256) + 65536 * (n div 65536 mod 256)
           + 16777216 * (n div 16777216 mod 256) = n"
proof -
  from assms have c: "n div 16777216 mod 256 = n div 16777216"
    by (simp add: div_16777216_nonneg div_16777216_less)
  have s1: "n = n mod 256 + 256 * (n div 256)"
    by (rule split256)
  have s2: "n div 256 = n div 256 mod 256 + 256 * (n div 65536)"
    using split256 [of "n div 256"] unfolding div_256_256 .
  have s3: "n div 65536 = n div 65536 mod 256 + 256 * (n div 16777216)"
    using split256 [of "n div 65536"] unfolding div_65536_256 .
  have "n = n mod 256 + 256 * (n div 256 mod 256 + 256 * (n div 65536 mod 256
                  + 256 * (n div 16777216)))"
    by (subst s1, subst s2, subst s3) (rule refl)
  then show ?thesis
    unfolding c by (rule le32_linear)
qed


lemma uint_byte: "uint (word_of_int k :: 8 word) = k mod 256"
  by (simp add: uint_word_of_int take_bit_eq_mod)

lemma unpack_le32:
  assumes "0 \<le> n" "n < 4294967296"
  shows "unpack_I (le32 n) = Inr n"
proof -
  have "unpack_I (le32 n) = Inr (n mod 256 + 256 * (n div 256 mod 256)
      + 65536 * (n div 65536 mod 256) + 16777216 * (n div 16777216 mod 256))"
    unfolding unpack_I_def le32_def list.case uint_byte ..
  then show ?thesis
    unfolding le32_sum [OF assms] .
qed

lemma bnd_assoc: "bnd (bnd m f) g = bnd m (\<lambda>x. bnd (f x) g)"
  by (auto simp: bnd_def fun_eq_iff split: prod.splits sum.splits)

lemma bnd_ret_unit: "bnd m (\<lambda>_. ret ()) = (m :: unit io)"
  by (auto simp: bnd_def ret_def fun_eq_iff split: prod.splits sum.splits)

lemma bnd_lift_Inr [simp]: "bnd (lift (Inr x)) f = f x"
  by (simp add: bnd_def lift_def)

lemma multi_loop_unfold:
  "k + 4 \<le> length d \<Longrightarrow>
   process_multi_loop p d k =
     bnd (lift (unpack_I (take 4 (drop k d)))) (\<lambda>size'.
     bnd (p (take (nat size') (drop (k + 4) d))) (\<lambda>_.
     process_multi_loop p d (k + 4 + nat size')))"
  by (subst process_multi_loop.simps) simp

lemma multi_loop_stop:
  "\<not> k + 4 \<le> length d \<Longrightarrow> process_multi_loop p d k = ret ()"
  by (subst process_multi_loop.simps) simp

lemma drop_shift: "drop (length pre + k) (pre @ d) = drop k d"
  by simp

lemma multi_loop_shift:
  "process_multi_loop p (pre @ d) (length pre + k) = process_multi_loop p d k"
proof (induction p d k rule: process_multi_loop.induct)
  case (1 p d k)
  show ?case
  proof (cases "k + 4 \<le> length d")
    case True
    then have big: "(length pre + k) + 4 \<le> length (pre @ d)"
      by simp
    have IH: "process_multi_loop p (pre @ d) (length pre + k + 4 + nat size')
              = process_multi_loop p d (k + 4 + nat size')" for size'
      using "1.IH" [OF True, of size'] by (simp only: add.assoc)
    have d1: "drop (length pre + k) (pre @ d) = drop k d"
      by (rule drop_shift)
    have d2: "drop (length pre + k + 4) (pre @ d) = drop (k + 4) d"
      using drop_shift [of pre "k + 4" d] by (simp only: add.assoc)
    show ?thesis
      unfolding multi_loop_unfold [OF big] multi_loop_unfold [OF True] d1 d2 IH ..
  next
    case False
    then have small: "\<not> (length pre + k) + 4 \<le> length (pre @ d)"
      by simp
    show ?thesis
      unfolding multi_loop_stop [OF small] multi_loop_stop [OF False] ..
  qed
qed

lemma bnd_ret [simp]: "bnd (ret x) f = f x"
  by (simp add: bnd_def ret_def)

lemma container_payload_Nil [simp]: "container_payload [] = []"
  by (simp add: container_payload_def)

lemma container_payload_Cons:
  "container_payload (r # recs) = le32 (int (length r)) @ r @ container_payload recs"
  by (simp add: container_payload_def)

lemma multi_loop_record:
  assumes "int (length r) < 4294967296"
  shows "process_multi_loop p (le32 (int (length r)) @ r @ rest) 0 =
           bnd (p r) (\<lambda>_. process_multi_loop p rest 0)"
proof -
  let ?d = "le32 (int (length r)) @ r @ rest"
  have long: "0 + 4 \<le> length ?d"
    by simp
  have size: "unpack_I (take 4 (drop 0 ?d)) = Inr (int (length r))"
    using unpack_le32 [of "int (length r)"] assms by simp
  have slice: "take (nat (int (length r))) (drop (0 + 4) ?d) = r"
    by simp
  have "process_multi_loop p ?d (length (le32 (int (length r)) @ r) + 0)
          = process_multi_loop p rest 0"
    using multi_loop_shift [of p "le32 (int (length r)) @ r" rest 0] by simp
  then have next_offset: "process_multi_loop p ?d (0 + 4 + nat (int (length r)))
          = process_multi_loop p rest 0"
    by simp
  show ?thesis
    unfolding multi_loop_unfold [OF long] size bnd_lift_Inr slice next_offset ..
qed

lemma multi_loop_payload:
  assumes "\<forall>r \<in> set recs. int (length r) < 4294967296"
  shows "process_multi_loop p (container_payload recs @ tail) 0 =
           bnd (for_each recs p) (\<lambda>_. process_multi_loop p tail 0)"
  using assms
proof (induction recs)
  case Nil
  show ?case by simp
next
  case (Cons r recs)
  then have r: "int (length r) < 4294967296"
    and IH: "process_multi_loop p (container_payload recs @ tail) 0 =
           bnd (for_each recs p) (\<lambda>_. process_multi_loop p tail 0)"
    by simp_all
  have "process_multi_loop p (container_payload (r # recs) @ tail) 0
        = bnd (p r) (\<lambda>_. process_multi_loop p (container_payload recs @ tail) 0)"
    using multi_loop_record [OF r, of p "container_payload recs @ tail"]
    by (simp add: container_payload_Cons)
  also have "\<dots> = bnd (for_each (r # recs) p) (\<lambda>_. process_multi_loop p tail 0)"
    unfolding IH by (simp add: bnd_assoc)
  finally show ?case .
qed

lemma multi_loop_short_tail:
  "length tail < 4 \<Longrightarrow> process_multi_loop p tail 0 = ret ()"
  by (rule multi_loop_stop) simp

lemma multi_loop_truncated:
  assumes "int (length rest) < n" "n < 4294967296"
  shows "process_multi_loop p (le32 n @ rest) 0 = p rest"
proof -
  let ?d = "le32 n @ rest"
  from assms have n0: "0 \<le> n" by simp
  have long: "0 + 4 \<le> length ?d"
    by simp
  have size: "unpack_I (take 4 (drop 0 ?d)) = Inr n"
    using unpack_le32 [OF n0 assms(2)] by simp
  from assms have slice: "take (nat n) (drop (0 + 4) ?d) = rest"
    by simp
  from assms have "\<not> (0 + 4 + nat n) + 4 \<le> length ?d"
    by simp
  then have stop: "process_multi_loop p ?d (0 + 4 + nat n) = ret ()"
    by (rule multi_loop_stop)
  show ?thesis
    unfolding multi_loop_unfold [OF long] size bnd_lift_Inr slice stop bnd_ret_unit ..
qed

lemma bnd_ret_right [simp]: "bnd m ret = m"
  by (auto simp: bnd_def ret_def fun_eq_iff split: prod.splits sum.splits)

lemma for_each_append:
  "for_each (xs @ ys) f = bnd (for_each xs f) (\<lambda>_. for_each ys f)"
  by (induction xs) (simp_all add: bnd_assoc)

lemma for_each_single: "for_each [x] f = f x"
  by simp

text \<open>
  Claim C3, as amended. Unpacking a container never reports a dangling partial record.
  Where the payload (after the optional decompression) is a sequence of complete records
  followed by fewer than 4 bytes, unpacking processes exactly the packets of the complete
  records and ignores the bytes that remain. Where it is followed by a length prefix and
  fewer bytes than the prefix declares, unpacking processes the complete records and then
  hands the bytes that remain, truncated, to packet processing as one more packet.
\<close>

theorem container_trailing_bytes:
  assumes parse: "parse_multi env body = Some msg"
      and payload: "(if size_unzipped msg > 0 then gzip_decompress env (message_body msg)
                     else Some (message_body msg)) = Some (container_payload packets @ tail)"
      and small: "\<forall>p \<in> set packets. int (length p) < 4294967296"
  shows "(length tail < 4 \<longrightarrow>
            process_multi process_packet' env body = for_each packets process_packet')
       \<and> (\<forall>n rest. tail = le32 n @ rest \<and> int (length rest) < n \<and> n < 4294967296 \<longrightarrow>
            process_multi process_packet' env body
              = for_each (packets @ [rest]) process_packet')"
proof -
  from parse payload
  have multi: "process_multi process_packet' env body
      = process_multi_loop process_packet' (container_payload packets @ tail) 0"
    by (simp add: process_multi_def io_defs split: if_splits)
  have loop: "process_multi_loop process_packet' (container_payload packets @ tail) 0
      = bnd (for_each packets process_packet') (\<lambda>_. process_multi_loop process_packet' tail 0)"
    by (rule multi_loop_payload [OF small])
  show ?thesis
  proof (intro conjI allI impI)
    assume "length tail < 4"
    then show "process_multi process_packet' env body = for_each packets process_packet'"
      unfolding multi loop by (simp add: multi_loop_short_tail)
  next
    fix n rest
    assume "tail = le32 n @ rest \<and> int (length rest) < n \<and> n < 4294967296"
    then have t: "tail = le32 n @ rest" and l: "int (length rest) < n" and n: "n < 4294967296"
      by simp_all
    have last: "process_multi_loop process_packet' tail 0 = process_packet' rest"
      unfolding t by (rule multi_loop_truncated [OF l n])
    show "process_multi process_packet' env body = for_each (packets @ [rest]) process_packet'"
      unfolding multi loop last for_each_append for_each_single ..
  qed
qed

lemma extended_packet_ignored:
  "process_packet (Suc depth) env extended_packet s =
     (Inr (), s\<lparr>log := log s @ [(WARNING, ''Packet with extended header - ignoring'')]\<rparr>)"
  by (simp add: process_packet_body_def io_defs unpack_I_def extended_packet_def PROTO_MASK_def)

text \<open>A container with one complete record, followed by two bytes, and followed by a
  record that declares 100 bytes and has 8.\<close>

theorem container_trailing_bytes_witness:
  "length [5 :: byte, 0] < 4
   \<and> process_multi (process_packet 1 (sample_multi_env (container_payload [extended_packet] @ [5, 0])))
       (sample_multi_env (container_payload [extended_packet] @ [5, 0])) [] (init [])
     = (Inr (), (init [])\<lparr>log := [(WARNING, ''Packet with extended header - ignoring'')]\<rparr>)
   \<and> int (length extended_packet) < 100
   \<and> process_multi
       (process_packet 1
          (sample_multi_env (container_payload [extended_packet] @ le32 100 @ extended_packet)))
       (sample_multi_env (container_payload [extended_packet] @ le32 100 @ extended_packet))
       [] (init [])
     = (Inr (), (init [])\<lparr>log := [(WARNING, ''Packet with extended header - ignoring''),
                                   (WARNING, ''Packet with extended header - ignoring'')]\<rparr>)"
proof -
  let ?short = "sample_multi_env (container_payload [extended_packet] @ [5, 0])"
  let ?cut = "sample_multi_env (container_payload [extended_packet] @ le32 100 @ extended_packet)"
  have small: "\<forall>p \<in> set [extended_packet]. int (length p) < 4294967296"
    by (simp add: extended_packet_def)
  have parse_short: "parse_multi ?short [] = Some \<lparr>size_unzipped = 0,
        message_body = container_payload [extended_packet] @ [5, 0]\<rparr>"
    and parse_cut: "parse_multi ?cut [] = Some \<lparr>size_unzipped = 0,
        message_body = container_payload [extended_packet] @ le32 100 @ extended_packet\<rparr>"
    by (simp_all add: sample_multi_env_def sample_env_def)
  have short: "process_multi (process_packet 1 ?short) ?short []
      = for_each [extended_packet] (process_packet 1 ?short)"
    using container_trailing_bytes [OF parse_short _ small, of "[5, 0]" "process_packet 1 ?short"]
    by simp
  have len: "int (length extended_packet) < 100"
    by (simp add: extended_packet_def)
  have cut: "process_multi (process_packet 1 ?cut) ?cut []
      = for_each ([extended_packet] @ [extended_packet]) (process_packet 1 ?cut)"
    using container_trailing_bytes [OF parse_cut _ small,
            of "le32 100 @ extended_packet" "process_packet 1 ?cut"] len
    by simp
  show ?thesis
    unfolding short cut
    using len by (simp add: extended_packet_ignored bnd_def ret_def init_def del: process_packet.simps)
qed

text \<open>The claim as stated fails: a payload of two bytes, a nonzero remainder that is
  shorter than a length prefix, is unpacked without an error and without a log record.\<close>

theorem container_dangling_bytes_ignored:
  "process_multi (process_packet 1 (sample_multi_env [5, 0])) (sample_multi_env [5, 0]) []
     (init []) = (Inr (), init [])"
  by (simp add: process_multi_def io_defs sample_multi_env_def sample_env_def
        process_multi_loop.simps)

end
